theory Spec2Isabelle
  imports Main
begin

section \<open>Python values, exceptions and service calls\<close>

text \<open>
  The operators receive and produce JSON-like Python values.  Dictionaries are association
  lists (a key occurs at most once in a Python dict; lookup takes the first entry).
  JSON numbers with a fraction are not modelled: the operators never compute with numbers.
\<close>

datatype pyval =
    PNone
  | PBool bool
  | PInt int
  | PStr string
  | PList "pyval list"
  | PDict "(string \<times> pyval) list"

type_synonym pydict = "(string \<times> pyval) list"

text \<open>
  Exceptions are values.  \<open>MasExecutionError\<close> carries the output object it was raised with;
  \<open>ServiceException\<close> stands for whatever a client call (boto3, the dataplane, the JSON
  decoder) raises.
\<close>

datatype py_exception =
    KeyError string
  | TypeError
  | AttributeError
  | UnboundLocalError
  | ServiceException string
  | MasExecutionError pydict

text \<open>What a call to an external service does: it returns a value or raises.\<close>

datatype 'a reply = Returns 'a | Raises string

text \<open>
  The calls an invocation makes to the outside, in order.  \<open>StoreAssetMetadata\<close> records
  \<open>asset_id\<close>, \<open>operator_name\<close>, \<open>workflow_id\<close>, \<open>results\<close> and the keyword
  arguments \<open>paginate\<close> and \<open>end\<close>; \<open>None\<close> means that the source does not pass the
  argument.
\<close>

datatype call =
    GetContentModeration pyval int pyval
  | StoreAssetMetadata pyval pyval pyval pyval "bool option" "bool option"
  | S3GetObject string string

text \<open>\<open>d[k]\<close> on a dict, \<open>k in d\<close> on a dict, \<open>v[k]\<close> on any value (\<open>k\<close> a string).\<close>

definition dict_getitem :: "pydict \<Rightarrow> string \<Rightarrow> py_exception + pyval" where
  "dict_getitem d k = (case map_of d k of None \<Rightarrow> Inl (KeyError k) | Some v \<Rightarrow> Inr v)"

definition dict_contains :: "pydict \<Rightarrow> string \<Rightarrow> bool" where
  "dict_contains d k = (map_of d k \<noteq> None)"

fun py_getitem :: "pyval \<Rightarrow> string \<Rightarrow> py_exception + pyval" where
  "py_getitem (PDict d) k = dict_getitem d k"
| "py_getitem v k = Inl TypeError"

text \<open>\<open>d[k] = v\<close> and \<open>d.update(...)\<close>, one key after the other.\<close>

fun dict_setitem :: "string \<Rightarrow> pyval \<Rightarrow> pydict \<Rightarrow> pydict" where
  "dict_setitem k v [] = [(k, v)]"
| "dict_setitem k v ((k', v') # d) =
     (if k = k' then (k, v) # d else (k', v') # dict_setitem k v d)"

definition dict_update :: "pydict \<Rightarrow> pydict \<Rightarrow> pydict" where
  "dict_update d kwargs = fold (\<lambda>(k, v). dict_setitem k v) kwargs d"

text \<open>
  \<open>str(v)\<close> and \<open>'{x}'.format(x=v)\<close>: a string is rendered as itself; the text of any
  other value is the Python runtime's, taken as the parameter \<open>render\<close>.
\<close>

definition py_str :: "(pyval \<Rightarrow> string) \<Rightarrow> pyval \<Rightarrow> string" where
  "py_str render v = (case v of PStr s \<Rightarrow> s | _ \<Rightarrow> render v)"

text \<open>\<open>str(KeyError(k))\<close> is the key in single quotes, for the plain keys used here.\<close>

definition key_repr :: "string \<Rightarrow> string" where
  "key_repr k = [CHR 0x27] @ k @ [CHR 0x27]"

section \<open>The helper objects of MediaInsightsEngineLambdaHelper\<close>

text \<open>
  Modelled from the spec: the classes \<open>OutputHelper\<close> and \<open>MediaInsightsOperationHelper\<close>
  of the package MediaInsightsEngineLambdaHelper are not among the source files.  The spec
  describes what they build as a status object, and on failure as a structured failure object
  containing the accumulated status context.  The object keeps a name, the workflow status,
  the workflow metadata accumulated so far and the media entries; \<open>update_workflow_status\<close>
  overwrites the status, \<open>add_workflow_metadata\<close> adds its keyword arguments to the
  metadata, \<open>return_output_object\<close> packs the fields into a dict.
\<close>

record OutputHelper =
  obj_name :: pyval
  obj_status :: pyval
  obj_metadata :: pydict
  obj_media :: pydict

definition update_workflow_status ::
  "string \<Rightarrow> 'a OutputHelper_scheme \<Rightarrow> 'a OutputHelper_scheme" where
  "update_workflow_status s oo = oo\<lparr>obj_status := PStr s\<rparr>"

definition add_workflow_metadata ::
  "pydict \<Rightarrow> 'a OutputHelper_scheme \<Rightarrow> 'a OutputHelper_scheme" where
  "add_workflow_metadata kwargs oo = oo\<lparr>obj_metadata := dict_update (obj_metadata oo) kwargs\<rparr>"

definition return_output_object :: "OutputHelper \<Rightarrow> pydict" where
  "return_output_object oo =
     [(''Name'', obj_name oo), (''Status'', obj_status oo),
      (''MetaData'', PDict (obj_metadata oo)), (''Media'', PDict (obj_media oo))]"

text \<open>
  Modelled from the spec: the operation helper is the same object built from the event; it
  keeps the event's identifiers, input and configuration as well.  Its constructor is a
  parameter of the operator that uses it.
\<close>

record MediaInsightsOperationHelper = OutputHelper +
  obj_asset_id :: pyval
  obj_workflow_execution_id :: pyval
  obj_input :: pyval
  obj_configuration :: pyval

definition return_operation_object :: "MediaInsightsOperationHelper \<Rightarrow> pydict" where
  "return_operation_object oo =
     [(''Name'', obj_name oo), (''AssetId'', obj_asset_id oo),
      (''WorkflowExecutionId'', obj_workflow_execution_id oo),
      (''Input'', obj_input oo), (''Configuration'', obj_configuration oo),
      (''Status'', obj_status oo),
      (''MetaData'', PDict (obj_metadata oo)), (''Media'', PDict (obj_media oo))]"

section \<open>check_content_moderation_status.py\<close>

text \<open>
  One pass through the body of \<open>while not finished\<close>.  \<open>rek i\<close> is what
  \<open>rek.get_content_moderation\<close> does at the \<open>i\<close>-th call of the invocation and
  \<open>dataplane i\<close> what \<open>dataplane.store_asset_metadata\<close> does at its \<open>i\<close>-th call
  (both counted from 0): every pass that goes round the loop again has made one call of
  each, so one counter serves both.  A pass either leaves the function (return or raise) or
  goes round again with the new pagination token and \<open>is_paginated = True\<close>.  The flag
  \<open>finished\<close> is set only on paths that return or raise in the same pass, so the loop
  is never left through its condition.  The three branches of a paginated write that does
  not report \<open>Success\<close> (no \<open>Status\<close>, \<open>Failed\<close>, anything else) do the same
  and are one branch here.
\<close>

datatype iteration =
    Leave "py_exception + pydict" OutputHelper "call list"
  | Again pyval OutputHelper "call list"

definition upload_error :: "string \<Rightarrow> pydict \<Rightarrow> OutputHelper \<Rightarrow> OutputHelper" where
  "upload_error msg extra oo =
     add_workflow_metadata ((''ContentModerationError'', PStr msg) # extra)
       (update_workflow_status ''Error'' oo)"

definition loop_body ::
  "(pyval \<Rightarrow> string) \<Rightarrow> string \<Rightarrow> (nat \<Rightarrow> pydict reply) \<Rightarrow> (nat \<Rightarrow> pydict reply) \<Rightarrow>
   pyval \<Rightarrow> pyval \<Rightarrow> pyval \<Rightarrow> nat \<Rightarrow> pyval \<Rightarrow> bool \<Rightarrow> OutputHelper \<Rightarrow> call list \<Rightarrow> iteration" where
  "loop_body render operator_name rek dataplane asset_id job_id workflow_id
     i pagination_token is_paginated output_object trace =
   (let trace1 = trace @ [GetContentModeration job_id 1000 pagination_token] in
    case rek i of
      Raises e \<Rightarrow> Leave (Inl (ServiceException e)) output_object trace1
    | Returns response \<Rightarrow>
       (case dict_getitem response ''JobStatus'' of
          Inl e \<Rightarrow> Leave (Inl e) output_object trace1
        | Inr job_status \<Rightarrow>
           if job_status = PStr ''IN_PROGRESS'' then
             let oo = add_workflow_metadata
                        [(''ContentModerationJobId'', job_id), (''AssetId'', asset_id),
                         (''WorkflowExecutionId'', workflow_id)]
                        (update_workflow_status ''Executing'' output_object)
             in Leave (Inr (return_output_object oo)) oo trace1
           else if job_status = PStr ''FAILED'' then
             let oo = update_workflow_status ''Error'' output_object in
             (case dict_getitem response ''StatusMessage'' of
                Inl e \<Rightarrow> Leave (Inl e) oo trace1
              | Inr m \<Rightarrow>
                 let oo = add_workflow_metadata
                            [(''ContentModerationJobId'', job_id),
                             (''ContentModerationError'', PStr (py_str render m))] oo
                 in Leave (Inl (MasExecutionError (return_output_object oo))) oo trace1)
           else if job_status = PStr ''SUCCEEDED'' then
             (case map_of response ''NextToken'' of
                Some token \<Rightarrow>
                let trace2 = trace1 @ [StoreAssetMetadata asset_id (PStr operator_name)
                               workflow_id (PDict response) (Some True) (Some False)];
                    failed = upload_error
                               (''Unable to upload metadata for asset: '' @ py_str render asset_id)
                               [(''ContentModerationJobId'', job_id)] output_object
                in
                (case dataplane i of
                   Raises e \<Rightarrow> Leave (Inl (ServiceException e)) output_object trace2
                 | Returns metadata_upload \<Rightarrow>
                    if \<not> dict_contains metadata_upload ''Status'' then
                      Leave (Inl (MasExecutionError (return_output_object failed))) failed trace2
                    else if map_of metadata_upload ''Status'' = Some (PStr ''Success'') then
                      Again token output_object trace2
                    else
                      Leave (Inl (MasExecutionError (return_output_object failed))) failed trace2)
              | None \<Rightarrow>
                let trace2 = trace1 @
                      [if is_paginated
                       then StoreAssetMetadata asset_id (PStr operator_name) workflow_id
                              (PDict response) (Some True) (Some True)
                       else StoreAssetMetadata asset_id (PStr operator_name) workflow_id
                              (PDict response) None None]
                in
                (case dataplane i of
                   Raises e \<Rightarrow> Leave (Inl (ServiceException e)) output_object trace2
                 | Returns metadata_upload \<Rightarrow>
                    if \<not> dict_contains metadata_upload ''Status'' then
                      let oo = upload_error
                                 (''Unable to upload metadata for '' @ py_str render asset_id
                                    @ '': '' @ py_str render (PDict metadata_upload))
                                 [] output_object
                      in Leave (Inl (MasExecutionError (return_output_object oo))) oo trace2
                    else if map_of metadata_upload ''Status'' = Some (PStr ''Success'') then
                      let oo = update_workflow_status ''Complete''
                                 (add_workflow_metadata [(''LabelDetectionJobId'', job_id)]
                                    output_object)
                      in Leave (Inr (return_output_object oo)) oo trace2
                    else if map_of metadata_upload ''Status'' = Some (PStr ''Failed'') then
                      let oo = upload_error
                                 (''Unable to upload metadata for asset: ''
                                    @ py_str render asset_id)
                                 [] output_object
                      in Leave (Inl (MasExecutionError (return_output_object oo))) oo trace2
                    else
                      let oo = add_workflow_metadata [(''PersonTrackingJobId'', job_id)]
                                 (upload_error
                                    (''Unable to upload metadata for asset: ''
                                       @ py_str render asset_id)
                                    [] output_object)
                      in Leave (Inl (MasExecutionError (return_output_object oo))) oo trace2))
           else
             let oo = add_workflow_metadata
                        [(''ContentModerationError'', PStr ''Unable to determine status'')]
                        (update_workflow_status ''Error'' output_object)
             in Leave (Inl (MasExecutionError (return_output_object oo))) oo trace1))"

text \<open>
  The loop itself.  It may run for ever (a remote service that always answers with another
  \<open>NextToken\<close>): not returning is the value \<open>None\<close>.
\<close>

partial_function (option) while_not_finished ::
  "(pyval \<Rightarrow> string) \<Rightarrow> string \<Rightarrow> (nat \<Rightarrow> pydict reply) \<Rightarrow> (nat \<Rightarrow> pydict reply) \<Rightarrow>
   pyval \<Rightarrow> pyval \<Rightarrow> pyval \<Rightarrow> nat \<Rightarrow> pyval \<Rightarrow> bool \<Rightarrow> OutputHelper \<Rightarrow> call list \<Rightarrow>
   ((py_exception + pydict) \<times> OutputHelper \<times> call list) option" where
  "while_not_finished render operator_name rek dataplane asset_id job_id workflow_id
     i pagination_token is_paginated output_object trace =
   (case loop_body render operator_name rek dataplane asset_id job_id workflow_id
           i pagination_token is_paginated output_object trace of
      Leave r oo trace' \<Rightarrow> Some (r, oo, trace')
    | Again token oo trace' \<Rightarrow>
        while_not_finished render operator_name rek dataplane asset_id job_id workflow_id
          (Suc i) token True oo trace')"

text \<open>
  The two \<open>try\<close> blocks that read the event.  \<open>except KeyError\<close> catches a missing key
  only: subscripting a \<open>MetaData\<close> that is not a dict raises \<open>TypeError\<close>, which
  leaves the handler as it is.
\<close>

definition read_status_and_asset :: "pydict \<Rightarrow> py_exception + (pyval \<times> pyval)" where
  "read_status_and_asset event =
     (case dict_getitem event ''Status'' of
        Inl e \<Rightarrow> Inl e
      | Inr status \<Rightarrow>
         (case dict_getitem event ''MetaData'' of
            Inl e \<Rightarrow> Inl e
          | Inr md \<Rightarrow>
             (case py_getitem md ''AssetId'' of
                Inl e \<Rightarrow> Inl e
              | Inr asset_id \<Rightarrow> Inr (status, asset_id))))"

definition read_job_and_workflow :: "pydict \<Rightarrow> py_exception + (pyval \<times> pyval)" where
  "read_job_and_workflow event =
     (case dict_getitem event ''MetaData'' of
        Inl e \<Rightarrow> Inl e
      | Inr md \<Rightarrow>
         (case py_getitem md ''ContentModerationJobId'' of
            Inl e \<Rightarrow> Inl e
          | Inr job_id \<Rightarrow>
             (case py_getitem md ''WorkflowExecutionId'' of
                Inl e \<Rightarrow> Inl e
              | Inr workflow_id \<Rightarrow> Inr (job_id, workflow_id))))"

text \<open>
  \<open>lambda_handler\<close> of check_content_moderation_status.py.  \<open>output_object\<close> is the
  module's global helper in the state the invocation finds it; the result is what the
  handler returns (\<open>Inr\<close>) or raises (\<open>Inl\<close>), the helper afterwards, and the calls made.
  The constructor \<open>DataPlane()\<close> is taken to succeed.
\<close>

definition lambda_handler ::
  "(pyval \<Rightarrow> string) \<Rightarrow> string \<Rightarrow> (nat \<Rightarrow> pydict reply) \<Rightarrow> (nat \<Rightarrow> pydict reply) \<Rightarrow>
   OutputHelper \<Rightarrow> pydict \<Rightarrow> ((py_exception + pydict) \<times> OutputHelper \<times> call list) option" where
  "lambda_handler render operator_name rek dataplane output_object event =
   (case read_status_and_asset event of
      Inl (KeyError k) \<Rightarrow>
        let oo = add_workflow_metadata
                   [(''ContentModerationError'', PStr (''Missing key '' @ key_repr k))]
                   (update_workflow_status ''Error'' output_object)
        in Some (Inl (MasExecutionError (return_output_object oo)), oo, [])
    | Inl e \<Rightarrow> Some (Inl e, output_object, [])
    | Inr (status, asset_id) \<Rightarrow>
        if status = PStr ''Complete'' then
          let oo = update_workflow_status ''Complete'' output_object
          in Some (Inr (return_output_object oo), oo, [])
        else
          (case read_job_and_workflow event of
             Inl (KeyError k) \<Rightarrow>
               let oo = add_workflow_metadata
                          [(''ContentModerationError'',
                            PStr (''Missing a required metadata key '' @ key_repr k))]
                          (update_workflow_status ''Error'' output_object)
               in Some (Inl (MasExecutionError (return_output_object oo)), oo, [])
           | Inl e \<Rightarrow> Some (Inl e, output_object, [])
           | Inr (job_id, workflow_id) \<Rightarrow>
               while_not_finished render operator_name rek dataplane
                 asset_id job_id workflow_id 0 (PStr []) False output_object []))"

section \<open>generic_data_lookup.py\<close>

text \<open>
  The string operations the operator uses: \<open>s.split(c)\<close> for a one-character separator,
  \<open>sep.join(xs)\<close>, and \<open>k in s\<close> on a string (\<open>k\<close> occurs in \<open>s\<close>).
\<close>

fun split_on :: "char \<Rightarrow> string \<Rightarrow> string list" where
  "split_on sep [] = [[]]"
| "split_on sep (c # cs) =
     (if c = sep then [] # split_on sep cs
      else (case split_on sep cs of w # ws \<Rightarrow> (c # w) # ws | [] \<Rightarrow> [[c]]))"

fun join :: "string \<Rightarrow> string list \<Rightarrow> string" where
  "join sep [] = []"
| "join sep [x] = x"
| "join sep (x # y # ys) = x @ sep @ join sep (y # ys)"

fun is_substring :: "string \<Rightarrow> string \<Rightarrow> bool" where
  "is_substring k [] = (k = [])"
| "is_substring k (c # s) = (take (length k) (c # s) = k \<or> is_substring k s)"

text \<open>
  \<open>k in v\<close> for a string \<open>k\<close>: a key of a dict, an element of a list, a piece of a
  string; anything else is not iterable.
\<close>

fun py_contains :: "pyval \<Rightarrow> string \<Rightarrow> py_exception + bool" where
  "py_contains (PDict d) k = Inr (dict_contains d k)"
| "py_contains (PList xs) k = Inr (PStr k \<in> set xs)"
| "py_contains (PStr s) k = Inr (is_substring k s)"
| "py_contains v k = Inl TypeError"

text \<open>\<open>str(type(v))\<close>.\<close>

fun py_type_name :: "pyval \<Rightarrow> string" where
  "py_type_name PNone = ''NoneType''"
| "py_type_name (PBool b) = ''bool''"
| "py_type_name (PInt n) = ''int''"
| "py_type_name (PStr s) = ''str''"
| "py_type_name (PList xs) = ''list''"
| "py_type_name (PDict d) = ''dict''"

definition py_type_str :: "pyval \<Rightarrow> string" where
  "py_type_str v = ''<class '' @ key_repr (py_type_name v) @ ''>''"

text \<open>
  One branch of the \<open>if "Video" in ... elif "Audio" in ...\<close> chain: bucket and key of
  the media entry \<open>kind\<close>; \<open>key.split('.')\<close> needs \<open>key\<close> to be a string.
\<close>

definition media_location :: "pyval \<Rightarrow> string \<Rightarrow> py_exception + (pyval \<times> string)" where
  "media_location media_input kind =
     (case py_getitem media_input kind of
        Inl e \<Rightarrow> Inl e
      | Inr m \<Rightarrow>
         (case py_getitem m ''S3Bucket'' of
            Inl e \<Rightarrow> Inl e
          | Inr bucket \<Rightarrow>
             (case py_getitem m ''S3Key'' of
                Inl e \<Rightarrow> Inl e
              | Inr (PStr key) \<Rightarrow> Inr (bucket, key)
              | Inr _ \<Rightarrow> Inl AttributeError)))"

fun first_media :: "pyval \<Rightarrow> string list \<Rightarrow> py_exception + (pyval \<times> string) option" where
  "first_media media_input [] = Inr None"
| "first_media media_input (kind # kinds) =
     (case py_contains media_input kind of
        Inl e \<Rightarrow> Inl e
      | Inr True \<Rightarrow>
         (case media_location media_input kind of
            Inl e \<Rightarrow> Inl e
          | Inr location \<Rightarrow> Inr (Some location))
      | Inr False \<Rightarrow> first_media media_input kinds)"

text \<open>
  The first \<open>try\<close> block: \<open>workflow_id\<close>, \<open>asset_id\<close> and, when one of the four media
  types is present, bucket and key.  With none of them present the block ends normally and
  leaves \<open>bucket\<close> and \<open>key\<close> unbound (\<open>None\<close> here).
\<close>

definition get_parameters ::
  "(pyval \<Rightarrow> string) \<Rightarrow> pydict \<Rightarrow> MediaInsightsOperationHelper \<Rightarrow>
   py_exception + (string \<times> pyval \<times> (pyval \<times> string) option)" where
  "get_parameters render event operator_object =
     (case dict_getitem event ''WorkflowExecutionId'' of
        Inl e \<Rightarrow> Inl e
      | Inr w \<Rightarrow>
         (case dict_getitem event ''AssetId'' of
            Inl e \<Rightarrow> Inl e
          | Inr asset_id \<Rightarrow>
             (case py_getitem (obj_input operator_object) ''Media'' of
                Inl e \<Rightarrow> Inl e
              | Inr media_input \<Rightarrow>
                 (case first_media media_input [''Video'', ''Audio'', ''Image'', ''Text''] of
                    Inl e \<Rightarrow> Inl e
                  | Inr location \<Rightarrow> Inr (py_str render w, asset_id, location)))))"

text \<open>
  The metadata filename: the configured \<open>Filename\<close>, or the media file's name with its
  last extension replaced by \<open>.json\<close>.
\<close>

definition get_metadata_filename ::
  "MediaInsightsOperationHelper \<Rightarrow> string \<Rightarrow> py_exception + pyval" where
  "get_metadata_filename operator_object key =
     (case py_contains (obj_configuration operator_object) ''Filename'' of
        Inl e \<Rightarrow> Inl e
      | Inr True \<Rightarrow> py_getitem (obj_configuration operator_object) ''Filename''
      | Inr False \<Rightarrow>
         let media_filename = last (split_on CHR ''/'' key)
         in Inr (PStr (join ''.'' (butlast (split_on CHR ''.'' media_filename)) @ ''.json'')))"

definition lookup_error ::
  "string \<Rightarrow> MediaInsightsOperationHelper \<Rightarrow> py_exception + pydict" where
  "lookup_error msg operator_object =
     Inl (MasExecutionError (return_operation_object
       (add_workflow_metadata [(''GenericDataLookupError'', PStr msg)]
          (update_workflow_status ''Error'' operator_object))))"

text \<open>
  The second \<open>try\<close> block: fetch the document and decode it.  \<open>s3_get_object\<close> is the
  object store; \<open>json_loads\<close> stands for reading the body, decoding it as UTF-8 and
  \<open>json.loads\<close>.  The string concatenation of the \<open>print\<close> raises for a filename that is
  not a string, before anything is fetched.
\<close>

definition get_metadata ::
  "(string \<Rightarrow> py_exception + pyval) \<Rightarrow> (string \<Rightarrow> string \<Rightarrow> string reply) \<Rightarrow>
   string \<Rightarrow> pyval \<Rightarrow> (py_exception + pyval) \<times> call list" where
  "get_metadata json_loads s3_get_object bucket metadata_filename =
     (case metadata_filename of
        PStr f \<Rightarrow>
          (case s3_get_object bucket f of
             Raises e \<Rightarrow> (Inl (ServiceException e), [S3GetObject bucket f])
           | Returns body \<Rightarrow> (json_loads body, [S3GetObject bucket f]))
      | _ \<Rightarrow> (Inl TypeError, []))"

text \<open>
  Saving the metadata and checking what the dataplane answered.  \<open>dataplane\<close> is what the
  one call of \<open>store_asset_metadata\<close> does.
\<close>

definition store_metadata ::
  "(pyval \<Rightarrow> string) \<Rightarrow> pydict reply \<Rightarrow> MediaInsightsOperationHelper \<Rightarrow> pyval \<Rightarrow> string \<Rightarrow>
   pydict \<Rightarrow> (py_exception + pydict) \<times> call list" where
  "store_metadata render dataplane operator_object asset_id workflow_id metadata_json =
     (let oo = add_workflow_metadata
                 [(''AssetId'', asset_id), (''WorkflowExecutionId'', PStr workflow_id)]
                 operator_object;
          trace = [StoreAssetMetadata asset_id (obj_name oo) (PStr workflow_id)
                     (PDict metadata_json) None None];
          msg = ''Unable to upload metadata for asset: '' @ py_str render asset_id
      in case dataplane of
           Raises e \<Rightarrow> (Inl (ServiceException e), trace)
         | Returns metadata_upload \<Rightarrow>
            if \<not> dict_contains metadata_upload ''Status'' then (lookup_error msg oo, trace)
            else if map_of metadata_upload ''Status'' = Some (PStr ''Success'') then
              (Inr (return_operation_object (update_workflow_status ''Complete'' oo)), trace)
            else (lookup_error msg oo, trace))"

text \<open>
  \<open>lambda_handler\<close> of generic_data_lookup.py.  \<open>new_helper\<close> is the constructor
  \<open>MediaInsightsOperationHelper(event)\<close>, \<open>exception_text\<close> is \<open>str(e)\<close> of an
  exception.  The result is what the handler returns or raises, and the calls made.
  Outside the two \<open>try\<close> blocks an exception leaves the handler as it is: the unbound
  \<open>bucket\<close>, a bucket that is not a string in the first \<open>print\<close>, a configuration that
  cannot be searched.  \<open>boto3.client\<close> and \<open>DataPlane()\<close> are taken to succeed.
\<close>

definition lambda_handler_generic_data_lookup ::
  "(pyval \<Rightarrow> string) \<Rightarrow> (py_exception \<Rightarrow> string) \<Rightarrow> (string \<Rightarrow> py_exception + pyval) \<Rightarrow>
   (pydict \<Rightarrow> py_exception + MediaInsightsOperationHelper) \<Rightarrow>
   (string \<Rightarrow> string \<Rightarrow> string reply) \<Rightarrow> pydict reply \<Rightarrow> pydict \<Rightarrow>
   (py_exception + pydict) \<times> call list" where
  "lambda_handler_generic_data_lookup render exception_text json_loads new_helper
     s3_get_object dataplane event =
   (case new_helper event of
      Inl e \<Rightarrow> (Inl e, [])
    | Inr operator_object \<Rightarrow>
       (case get_parameters render event operator_object of
          Inl e \<Rightarrow> (lookup_error ''No valid inputs'' operator_object, [])
        | Inr (workflow_id, asset_id, None) \<Rightarrow> (Inl UnboundLocalError, [])
        | Inr (workflow_id, asset_id, Some (PStr bucket, key)) \<Rightarrow>
           (case get_metadata_filename operator_object key of
              Inl e \<Rightarrow> (Inl e, [])
            | Inr metadata_filename \<Rightarrow>
               (case get_metadata json_loads s3_get_object bucket metadata_filename of
                  (Inl e, trace) \<Rightarrow>
                    (lookup_error (''Unable read datafile. '' @ exception_text e)
                       operator_object, trace)
                | (Inr (PDict metadata_json), trace) \<Rightarrow>
                    (case store_metadata render dataplane operator_object asset_id
                            workflow_id metadata_json of
                       (r, trace') \<Rightarrow> (r, trace @ trace'))
                | (Inr v, trace) \<Rightarrow>
                    (lookup_error (''Metadata must be of type dict. Found ''
                                     @ py_type_str v @ '' instead.'')
                       operator_object, trace)))
        | Inr (workflow_id, asset_id, Some (bucket, key)) \<Rightarrow> (Inl TypeError, [])))"

section \<open>What an invocation is observed to do\<close>

text \<open>The metadata-store writes and the remote job-status queries among the calls made.\<close>

fun is_store :: "call \<Rightarrow> bool" where
  "is_store (StoreAssetMetadata a n w r p e) = True"
| "is_store c = False"

fun is_query :: "call \<Rightarrow> bool" where
  "is_query (GetContentModeration j m t) = True"
| "is_query c = False"

definition store_calls :: "call list \<Rightarrow> call list" where
  "store_calls trace = filter is_store trace"

definition remote_queries :: "call list \<Rightarrow> call list" where
  "remote_queries trace = filter is_query trace"

text \<open>
  The handler returned an output object with the given status.  (The structured failure
  object is the output object carried by a raised \<open>MasExecutionError\<close>.)
\<close>

fun returned_status :: "string \<Rightarrow> py_exception + pydict \<Rightarrow> bool" where
  "returned_status s (Inr out) = (map_of out ''Status'' = Some (PStr s))"
| "returned_status s (Inl e) = False"

text \<open>The workflow metadata entry \<open>k\<close> of an output object.\<close>

definition output_metadata :: "pydict \<Rightarrow> string \<Rightarrow> pyval option" where
  "output_metadata out k =
     (case map_of out ''MetaData'' of Some (PDict md) \<Rightarrow> map_of md k | _ \<Rightarrow> None)"

text \<open>
  Kinds of remote responses and of dataplane answers: a SUCCEEDED page that carries a
  \<open>NextToken\<close>; a response with a given job status; a write that reports \<open>Success\<close>.
\<close>

fun job_status_is :: "string \<Rightarrow> pydict reply \<Rightarrow> bool" where
  "job_status_is s (Returns response) = (map_of response ''JobStatus'' = Some (PStr s))"
| "job_status_is s (Raises e) = False"

fun has_next_token :: "pydict reply \<Rightarrow> bool" where
  "has_next_token (Returns response) = dict_contains response ''NextToken''"
| "has_next_token (Raises e) = False"

fun upload_succeeded :: "pydict reply \<Rightarrow> bool" where
  "upload_succeeded (Returns metadata_upload) =
     (map_of metadata_upload ''Status'' = Some (PStr ''Success''))"
| "upload_succeeded (Raises e) = False"

definition page_goes_on :: "pydict reply \<Rightarrow> pydict reply \<Rightarrow> bool" where
  "page_goes_on r u = (job_status_is ''SUCCEEDED'' r \<and> has_next_token r \<and> upload_succeeded u)"

text \<open>
  The calls of the passes that go round the loop: pass \<open>i\<close> queries with the token of the
  page before (the empty string at first) and writes page \<open>i\<close> with \<open>paginate=True\<close>,
  \<open>end=False\<close>.
\<close>

fun response_of :: "pydict reply \<Rightarrow> pydict" where
  "response_of (Returns response) = response"
| "response_of (Raises e) = []"

definition next_token :: "pydict reply \<Rightarrow> pyval" where
  "next_token r = (case map_of (response_of r) ''NextToken'' of Some t \<Rightarrow> t | None \<Rightarrow> PNone)"

fun token_at :: "(nat \<Rightarrow> pydict reply) \<Rightarrow> nat \<Rightarrow> pyval" where
  "token_at rek 0 = PStr []"
| "token_at rek (Suc i) = next_token (rek i)"

definition query_call :: "(nat \<Rightarrow> pydict reply) \<Rightarrow> pyval \<Rightarrow> nat \<Rightarrow> call" where
  "query_call rek job_id i = GetContentModeration job_id 1000 (token_at rek i)"

definition store_call ::
  "string \<Rightarrow> (nat \<Rightarrow> pydict reply) \<Rightarrow> pyval \<Rightarrow> pyval \<Rightarrow> bool option \<Rightarrow> bool option \<Rightarrow> nat \<Rightarrow> call" where
  "store_call operator_name rek asset_id workflow_id paginate end_flag i =
     StoreAssetMetadata asset_id (PStr operator_name) workflow_id
       (PDict (response_of (rek i))) paginate end_flag"

fun pages_trace ::
  "string \<Rightarrow> (nat \<Rightarrow> pydict reply) \<Rightarrow> pyval \<Rightarrow> pyval \<Rightarrow> pyval \<Rightarrow> nat \<Rightarrow> call list" where
  "pages_trace operator_name rek asset_id job_id workflow_id 0 = []"
| "pages_trace operator_name rek asset_id job_id workflow_id (Suc k) =
     pages_trace operator_name rek asset_id job_id workflow_id k @
       [query_call rek job_id k,
        store_call operator_name rek asset_id workflow_id (Some True) (Some False) k]"

text \<open>
  The event carries the keys the adapter reads, with these values: \<open>Status\<close> at the top
  level, and \<open>AssetId\<close>, \<open>ContentModerationJobId\<close>, \<open>WorkflowExecutionId\<close> in a
  \<open>MetaData\<close> dict.
\<close>

definition event_keys :: "pydict \<Rightarrow> pyval \<Rightarrow> pyval \<Rightarrow> pyval \<Rightarrow> pyval \<Rightarrow> bool" where
  "event_keys event status asset_id job_id workflow_id =
     (map_of event ''Status'' = Some status \<and>
      (case map_of event ''MetaData'' of
         Some (PDict md) \<Rightarrow>
           map_of md ''AssetId'' = Some asset_id \<and>
           map_of md ''ContentModerationJobId'' = Some job_id \<and>
           map_of md ''WorkflowExecutionId'' = Some workflow_id
       | _ \<Rightarrow> False))"

text \<open>\<open>MetaData\<close> is a dict that has, or that lacks, the key \<open>k\<close>.\<close>

definition metadata_has :: "pydict \<Rightarrow> string \<Rightarrow> bool" where
  "metadata_has event k =
     (case map_of event ''MetaData'' of Some (PDict md) \<Rightarrow> map_of md k \<noteq> None | _ \<Rightarrow> False)"

definition metadata_lacks :: "pydict \<Rightarrow> string \<Rightarrow> bool" where
  "metadata_lacks event k =
     (case map_of event ''MetaData'' of Some (PDict md) \<Rightarrow> map_of md k = None | _ \<Rightarrow> False)"

text \<open>
  The document fetched from the object store decodes to a dict: the fetch returns a body and
  the decoder turns it into a dict.
\<close>

fun decodes_to_dict :: "(string \<Rightarrow> py_exception + pyval) \<Rightarrow> string reply \<Rightarrow> bool" where
  "decodes_to_dict json_loads (Returns body) =
     (case json_loads body of Inr (PDict d) \<Rightarrow> True | _ \<Rightarrow> False)"
| "decodes_to_dict json_loads (Raises e) = False"

section \<open>Concrete runs\<close>

text \<open>
  A service that answers from a script, a renderer, a fresh helper object, and events with
  all, and with only some, of the keys.
\<close>

definition script :: "'a reply list \<Rightarrow> nat \<Rightarrow> 'a reply" where
  "script rs i = (if i < length rs then rs ! i else Raises ''no more replies'')"

definition plain_render :: "pyval \<Rightarrow> string" where
  "plain_render v = ''<value>''"

definition fresh_helper :: OutputHelper where
  "fresh_helper =
     \<lparr>obj_name = PStr ''contentModeration'', obj_status = PStr [], obj_metadata = [],
      obj_media = []\<rparr>"

definition full_event :: "string \<Rightarrow> pydict" where
  "full_event s =
     [(''Status'', PStr s),
      (''MetaData'', PDict [(''AssetId'', PStr ''a1''), (''ContentModerationJobId'', PStr ''j1''),
                            (''WorkflowExecutionId'', PStr ''w1'')])]"

definition asset_only_event :: "string \<Rightarrow> pydict" where
  "asset_only_event s = [(''Status'', PStr s), (''MetaData'', PDict [(''AssetId'', PStr ''a1'')])]"

definition status_only_event :: "string \<Rightarrow> pydict" where
  "status_only_event s = [(''Status'', PStr s)]"

definition page :: "string \<Rightarrow> pydict" where
  "page token = [(''JobStatus'', PStr ''SUCCEEDED''), (''NextToken'', PStr token)]"

definition last_page :: pydict where
  "last_page = [(''JobStatus'', PStr ''SUCCEEDED'')]"

definition job_state :: "string \<Rightarrow> pydict" where
  "job_state s = [(''JobStatus'', PStr s), (''StatusMessage'', PStr ''job failed'')]"

definition upload :: "string \<Rightarrow> pydict" where
  "upload s = [(''Status'', PStr s)]"

text \<open>
  For the lookup operator: a constructor that copies the event's fields into the helper, an
  event for the video \<open>clips/demo.mp4\<close>, an object store with one document under
  \<open>demo.json\<close>, and a decoder that knows two bodies.
\<close>

definition helper_of_event :: "pydict \<Rightarrow> py_exception + MediaInsightsOperationHelper" where
  "helper_of_event event =
     (case (map_of event ''Name'', map_of event ''Input'', map_of event ''Configuration'') of
        (Some n, Some i, Some c) \<Rightarrow>
          Inr \<lparr>obj_name = n, obj_status = PStr [], obj_metadata = [], obj_media = [],
               obj_asset_id = PNone, obj_workflow_execution_id = PNone,
               obj_input = i, obj_configuration = c\<rparr>
      | _ \<Rightarrow> Inl (KeyError ''Name''))"

definition lookup_event :: pydict where
  "lookup_event =
     [(''Name'', PStr ''GenericDataLookup''), (''AssetId'', PStr ''a1''),
      (''WorkflowExecutionId'', PStr ''w1''),
      (''Input'', PDict [(''Media'', PDict [(''Video'',
          PDict [(''S3Bucket'', PStr ''bucket''), (''S3Key'', PStr ''clips/demo.mp4'')])])]),
      (''Configuration'', PDict [])]"

definition one_document :: "string \<Rightarrow> string \<Rightarrow> string \<Rightarrow> string reply" where
  "one_document body bucket key =
     (if bucket = ''bucket'' \<and> key = ''demo.json'' then Returns body else Raises ''NoSuchKey'')"

definition small_decoder :: "string \<Rightarrow> py_exception + pyval" where
  "small_decoder body =
     (if body = ''{}'' then Inr (PDict [])
      else if body = ''[]'' then Inr (PList [])
      else Inl (ServiceException ''JSONDecodeError''))"

definition plain_exception_text :: "py_exception \<Rightarrow> string" where
  "plain_exception_text e = ''<exception>''"

section \<open>The helper object and the reading of the event\<close>

lemma map_of_dict_setitem: "map_of (dict_setitem k v d) = (map_of d)(k \<mapsto> v)"
  by (induction d) (auto simp: fun_eq_iff)

lemma status_of_output [simp]:
  "map_of (return_output_object oo) ''Status'' = Some (obj_status oo)"
  by (simp add: return_output_object_def)

lemma metadata_of_output [simp]:
  "output_metadata (return_output_object oo) k = map_of (obj_metadata oo) k"
  by (simp add: return_output_object_def output_metadata_def)

lemma helper_after_update [simp]:
  "obj_status (update_workflow_status s oo) = PStr s"
  "obj_metadata (update_workflow_status s oo) = obj_metadata oo"
  by (simp_all add: update_workflow_status_def)

lemma status_after_add [simp]:
  "obj_status (add_workflow_metadata kwargs oo) = obj_status oo"
  by (simp add: add_workflow_metadata_def)

lemma metadata_after_add:
  "obj_metadata (add_workflow_metadata kwargs oo) = dict_update (obj_metadata oo) kwargs"
  by (simp add: add_workflow_metadata_def)

lemma event_keys_read:
  assumes "event_keys event status asset_id job_id workflow_id"
  shows "read_status_and_asset event = Inr (status, asset_id)"
    and "read_job_and_workflow event = Inr (job_id, workflow_id)"
  using assms
  by (auto simp: event_keys_def read_status_and_asset_def read_job_and_workflow_def
      dict_getitem_def split: option.splits pyval.splits)

lemma handler_polls:
  assumes "event_keys event status asset_id job_id workflow_id"
    and "status \<noteq> PStr ''Complete''"
  shows "lambda_handler render operator_name rek dataplane output_object event =
         while_not_finished render operator_name rek dataplane asset_id job_id workflow_id
           0 (PStr []) False output_object []"
  using assms(2) by (simp add: lambda_handler_def event_keys_read [OF assms(1)])

section \<open>One pass of the loop\<close>

lemma loop_body_goes_on:
  assumes "page_goes_on (rek i) (dataplane i)"
  shows "loop_body render operator_name rek dataplane asset_id job_id workflow_id
           i pagination_token is_paginated output_object trace =
         Again (next_token (rek i)) output_object
           (trace @ [GetContentModeration job_id 1000 pagination_token,
                     store_call operator_name rek asset_id workflow_id
                       (Some True) (Some False) i])"
proof -
  from assms obtain response metadata_upload where
    r: "rek i = Returns response" and u: "dataplane i = Returns metadata_upload"
    by (cases "rek i"; cases "dataplane i") (simp_all add: page_goes_on_def)
  from assms r u have s: "map_of response ''JobStatus'' = Some (PStr ''SUCCEEDED'')"
    and t: "map_of response ''NextToken'' \<noteq> None"
    and v: "map_of metadata_upload ''Status'' = Some (PStr ''Success'')"
    by (simp_all add: page_goes_on_def dict_contains_def)
  from t obtain token where t': "map_of response ''NextToken'' = Some token" by blast
  show ?thesis
    by (simp add: loop_body_def r u s t' v dict_getitem_def dict_contains_def
        next_token_def store_call_def)
qed

lemma loop_body_stops:
  assumes "\<not> page_goes_on (rek i) (dataplane i)"
  shows "\<exists>r oo rest.
           loop_body render operator_name rek dataplane asset_id job_id workflow_id
             i pagination_token is_paginated output_object trace =
           Leave r oo (trace @ GetContentModeration job_id 1000 pagination_token # rest)
           \<and> remote_queries rest = []"
  using assms
  by (auto simp: loop_body_def page_goes_on_def dict_getitem_def dict_contains_def Let_def
      remote_queries_def split: reply.splits option.splits)

section \<open>The passes before the one that leaves\<close>

lemma while_goes_on:
  assumes "page_goes_on (rek i) (dataplane i)"
  shows "while_not_finished render operator_name rek dataplane asset_id job_id workflow_id
           i pagination_token is_paginated output_object trace =
         while_not_finished render operator_name rek dataplane asset_id job_id workflow_id
           (Suc i) (next_token (rek i)) True output_object
           (trace @ [GetContentModeration job_id 1000 pagination_token,
                     store_call operator_name rek asset_id workflow_id
                       (Some True) (Some False) i])"
  using assms by (subst while_not_finished.simps) (simp add: loop_body_goes_on)

lemma while_leaves:
  assumes "loop_body render operator_name rek dataplane asset_id job_id workflow_id
             i pagination_token is_paginated output_object trace = Leave r oo trace'"
  shows "while_not_finished render operator_name rek dataplane asset_id job_id workflow_id
           i pagination_token is_paginated output_object trace = Some (r, oo, trace')"
  by (subst while_not_finished.simps) (simp add: assms)

lemma while_pages:
  assumes "\<forall>j<k. page_goes_on (rek j) (dataplane j)"
  shows "while_not_finished render operator_name rek dataplane asset_id job_id workflow_id
           0 (PStr []) False output_object [] =
         while_not_finished render operator_name rek dataplane asset_id job_id workflow_id
           k (token_at rek k) (0 < k) output_object
           (pages_trace operator_name rek asset_id job_id workflow_id k)"
  using assms
proof (induction k)
  case 0
  show ?case by simp
next
  case (Suc k)
  then have "page_goes_on (rek k) (dataplane k)" by simp
  with Suc show ?case
    by (simp add: query_call_def while_goes_on)
qed

lemma store_calls_pages:
  "store_calls (pages_trace operator_name rek asset_id job_id workflow_id k) =
   map (store_call operator_name rek asset_id workflow_id (Some True) (Some False)) [0..<k]"
  by (induction k) (simp_all add: store_calls_def query_call_def store_call_def)

lemma remote_queries_pages:
  "remote_queries (pages_trace operator_name rek asset_id job_id workflow_id k) =
   map (query_call rek job_id) [0..<k]"
  by (induction k) (simp_all add: remote_queries_def query_call_def store_call_def)

section \<open>The pass that leaves, branch by branch\<close>

lemma loop_body_in_progress:
  assumes "job_status_is ''IN_PROGRESS'' (rek i)"
  shows "\<exists>oo. loop_body render operator_name rek dataplane asset_id job_id workflow_id
           i pagination_token is_paginated output_object trace =
         Leave (Inr (return_output_object oo)) oo
           (trace @ [GetContentModeration job_id 1000 pagination_token])
         \<and> obj_status oo = PStr ''Executing''"
  using assms
  by (cases "rek i") (simp_all add: loop_body_def dict_getitem_def Let_def)

lemma loop_body_failed:
  assumes "rek i = Returns response"
    and "map_of response ''JobStatus'' = Some (PStr ''FAILED'')"
    and "map_of response ''StatusMessage'' = Some m"
  shows "\<exists>oo. loop_body render operator_name rek dataplane asset_id job_id workflow_id
           i pagination_token is_paginated output_object trace =
         Leave (Inl (MasExecutionError (return_output_object oo))) oo
           (trace @ [GetContentModeration job_id 1000 pagination_token])
         \<and> obj_status oo = PStr ''Error''
         \<and> map_of (obj_metadata oo) ''ContentModerationError'' = Some (PStr (py_str render m))"
  using assms
  by (simp add: loop_body_def dict_getitem_def metadata_after_add dict_update_def
      map_of_dict_setitem Let_def)

lemma loop_body_unrecognized:
  assumes "rek i = Returns response"
    and "map_of response ''JobStatus'' = Some s"
    and "s \<noteq> PStr ''IN_PROGRESS''" and "s \<noteq> PStr ''FAILED''" and "s \<noteq> PStr ''SUCCEEDED''"
  shows "\<exists>oo. loop_body render operator_name rek dataplane asset_id job_id workflow_id
           i pagination_token is_paginated output_object trace =
         Leave (Inl (MasExecutionError (return_output_object oo))) oo
           (trace @ [GetContentModeration job_id 1000 pagination_token])
         \<and> obj_status oo = PStr ''Error''
         \<and> map_of (obj_metadata oo) ''ContentModerationError'' =
             Some (PStr ''Unable to determine status'')"
  using assms
  by (simp add: loop_body_def dict_getitem_def metadata_after_add dict_update_def
      map_of_dict_setitem Let_def)

lemma loop_body_last_page:
  assumes "job_status_is ''SUCCEEDED'' (rek i)" and "\<not> has_next_token (rek i)"
  shows "\<exists>r oo. loop_body render operator_name rek dataplane asset_id job_id workflow_id
           i pagination_token is_paginated output_object trace =
         Leave r oo
           (trace @ [GetContentModeration job_id 1000 pagination_token,
                     store_call operator_name rek asset_id workflow_id
                       (if is_paginated then Some True else None)
                       (if is_paginated then Some True else None) i])
         \<and> (upload_succeeded (dataplane i) \<longrightarrow> returned_status ''Complete'' r)"
  using assms
  by (cases "rek i"; cases "dataplane i")
     (auto simp: loop_body_def dict_getitem_def dict_contains_def store_call_def Let_def)


section \<open>Every outcome of the loop begins with a query\<close>

lemma loop_body_trace:
  "(\<exists>r oo rest. loop_body render operator_name rek dataplane asset_id job_id workflow_id
       i pagination_token is_paginated output_object trace =
       Leave r oo (trace @ GetContentModeration job_id 1000 pagination_token # rest)) \<or>
   (\<exists>token oo rest. loop_body render operator_name rek dataplane asset_id job_id workflow_id
       i pagination_token is_paginated output_object trace =
       Again token oo (trace @ GetContentModeration job_id 1000 pagination_token # rest))"
proof (cases "page_goes_on (rek i) (dataplane i)")
  case True
  then show ?thesis by (simp add: loop_body_goes_on)
next
  case False
  then show ?thesis using loop_body_stops [of rek i dataplane] by blast
qed

lemma while_returns_trace:
  assumes "while_not_finished render operator_name rek dataplane asset_id job_id workflow_id
             i pagination_token is_paginated output_object trace = Some y"
  shows "\<exists>rest. snd (snd y) =
           trace @ GetContentModeration job_id 1000 pagination_token # rest"
  using assms
proof (induction render operator_name rek dataplane asset_id job_id workflow_id
    i pagination_token is_paginated output_object trace y
    rule: while_not_finished.raw_induct [rotated 1, consumes 1, case_names step])
  case (step wnf render operator_name rek dataplane asset_id job_id workflow_id
      i pagination_token is_paginated output_object trace y)
  from loop_body_trace [of render operator_name rek dataplane asset_id job_id workflow_id
      i pagination_token is_paginated output_object trace]
  show ?case
  proof (elim disjE exE)
    fix r oo rest
    assume "loop_body render operator_name rek dataplane asset_id job_id workflow_id
       i pagination_token is_paginated output_object trace =
       Leave r oo (trace @ GetContentModeration job_id 1000 pagination_token # rest)"
    with step(2) show ?thesis by auto
  next
    fix token oo rest
    assume a: "loop_body render operator_name rek dataplane asset_id job_id workflow_id
       i pagination_token is_paginated output_object trace =
       Again token oo (trace @ GetContentModeration job_id 1000 pagination_token # rest)"
    with step(2) have "wnf render operator_name rek dataplane asset_id job_id workflow_id (Suc i)
       token True oo (trace @ GetContentModeration job_id 1000 pagination_token # rest) = Some y"
      by simp
    from step(1) [OF this] show ?thesis by auto
  qed
qed

section \<open>The handler and the loop as a whole\<close>

lemma handler_after_pages:
  assumes "event_keys event status asset_id job_id workflow_id"
    and "status \<noteq> PStr ''Complete''"
    and "\<forall>j<k. page_goes_on (rek j) (dataplane j)"
  shows "lambda_handler render operator_name rek dataplane output_object event =
         while_not_finished render operator_name rek dataplane asset_id job_id workflow_id
           k (token_at rek k) (0 < k) output_object
           (pages_trace operator_name rek asset_id job_id workflow_id k)"
  using handler_polls [OF assms(1,2)] while_pages [OF assms(3)] by simp

lemma while_terminates:
  assumes "\<not> page_goes_on (rek n) (dataplane n)" and "i \<le> n"
  shows "\<exists>r oo rest.
           while_not_finished render operator_name rek dataplane asset_id job_id workflow_id
             i pagination_token is_paginated output_object trace = Some (r, oo, trace @ rest) \<and>
           length (remote_queries rest) \<le> Suc n - i"
  using assms(2)
proof (induction "n - i" arbitrary: i pagination_token is_paginated trace)
  case 0
  then have "i = n" by simp
  with assms(1) loop_body_stops [of rek i dataplane render operator_name asset_id job_id
      workflow_id pagination_token is_paginated output_object trace]
  obtain r oo rest where
    "loop_body render operator_name rek dataplane asset_id job_id workflow_id
       i pagination_token is_paginated output_object trace =
     Leave r oo (trace @ GetContentModeration job_id 1000 pagination_token # rest)"
    and "remote_queries rest = []"
    by blast
  then have "while_not_finished render operator_name rek dataplane asset_id job_id workflow_id
       i pagination_token is_paginated output_object trace =
     Some (r, oo, trace @ GetContentModeration job_id 1000 pagination_token # rest)
     \<and> length (remote_queries (GetContentModeration job_id 1000 pagination_token # rest)) \<le> Suc n - i"
    using \<open>i = n\<close> by (simp add: while_leaves remote_queries_def)
  then show ?case by blast
next
  case (Suc d)
  show ?case
  proof (cases "page_goes_on (rek i) (dataplane i)")
    case True
    from Suc(2) Suc(3) have d: "d = n - Suc i" and le: "Suc i \<le> n" by simp_all
    let ?calls = "[GetContentModeration job_id 1000 pagination_token,
                   store_call operator_name rek asset_id workflow_id (Some True) (Some False) i]"
    from Suc(1) [OF d le, of "next_token (rek i)" True "trace @ ?calls"]
    obtain r oo rest where
      "while_not_finished render operator_name rek dataplane asset_id job_id workflow_id
         (Suc i) (next_token (rek i)) True output_object (trace @ ?calls) =
       Some (r, oo, (trace @ ?calls) @ rest)"
      and "length (remote_queries rest) \<le> Suc n - Suc i"
      by blast
    with True le have
      "while_not_finished render operator_name rek dataplane asset_id job_id workflow_id
         i pagination_token is_paginated output_object trace = Some (r, oo, trace @ (?calls @ rest))
       \<and> length (remote_queries (?calls @ rest)) \<le> Suc n - i"
      by (simp add: while_goes_on remote_queries_def store_call_def)
    then show ?thesis by blast
  next
    case False
    with loop_body_stops [of rek i dataplane render operator_name asset_id job_id
      workflow_id pagination_token is_paginated output_object trace]
    obtain r oo rest where
      "loop_body render operator_name rek dataplane asset_id job_id workflow_id
         i pagination_token is_paginated output_object trace =
       Leave r oo (trace @ GetContentModeration job_id 1000 pagination_token # rest)"
      and "remote_queries rest = []"
      by blast
    then have "while_not_finished render operator_name rek dataplane asset_id job_id workflow_id
         i pagination_token is_paginated output_object trace =
       Some (r, oo, trace @ GetContentModeration job_id 1000 pagination_token # rest)
       \<and> length (remote_queries (GetContentModeration job_id 1000 pagination_token # rest)) \<le> Suc n - i"
      using Suc(3) by (simp add: while_leaves remote_queries_def)
    then show ?thesis by blast
  qed
qed

lemma handler_without_loop:
  "(\<exists>r oo. lambda_handler render operator_name rek dataplane output_object event =
      Some (r, oo, [])) \<or>
   (\<exists>status asset_id job_id workflow_id.
      status \<noteq> PStr ''Complete'' \<and>
      read_status_and_asset event = Inr (status, asset_id) \<and>
      read_job_and_workflow event = Inr (job_id, workflow_id))"
  by (auto simp: lambda_handler_def Let_def split: sum.splits py_exception.splits)

section \<open>The lookup operator: what is fetched and what is written\<close>

lemma get_metadata_trace:
  assumes "get_metadata json_loads s3_get_object bucket metadata_filename = (x, trace)"
    and "S3GetObject b f \<in> set trace"
  shows "b = bucket \<and> metadata_filename = PStr f \<and> trace = [S3GetObject bucket f] \<and>
         x = (case s3_get_object bucket f of
                Raises e \<Rightarrow> Inl (ServiceException e) | Returns body \<Rightarrow> json_loads body)"
  using assms
  by (auto simp: get_metadata_def split: pyval.splits reply.splits)

lemma store_metadata_trace:
  "S3GetObject b f \<notin> set (snd (store_metadata render dataplane operator_object asset_id
      workflow_id metadata_json))"
  by (simp add: store_metadata_def Let_def split: reply.splits)

lemma lookup_error_failure:
  "\<exists>out. lookup_error msg operator_object = Inl (MasExecutionError out) \<and>
         map_of out ''Status'' = Some (PStr ''Error'')"
  by (simp add: lookup_error_def return_operation_object_def)

section \<open>The claims about the poll adapter's reading of the event\<close>

text \<open>
  C2 (as amended).  For every input event whose \<open>Status\<close> equals \<open>Complete\<close> and whose
  \<open>MetaData\<close> is a dict that contains \<open>AssetId\<close>, the poll adapter returns an output
  object whose \<open>Status\<close> is \<open>Complete\<close> and makes no call at all: no remote job-status
  query and no metadata-store write.
\<close>

theorem complete_event_returns_at_once:
  assumes "map_of event ''Status'' = Some (PStr ''Complete'')"
    and "metadata_has event ''AssetId''"
  shows "\<exists>out oo. lambda_handler render operator_name rek dataplane output_object event =
           Some (Inr out, oo, []) \<and> map_of out ''Status'' = Some (PStr ''Complete'')"
  using assms
  by (auto simp: lambda_handler_def read_status_and_asset_def dict_getitem_def metadata_has_def
      Let_def split: option.splits pyval.splits)

theorem complete_event_returns_at_once_witness:
  "map_of (asset_only_event ''Complete'') ''Status'' = Some (PStr ''Complete'') \<and>
   metadata_has (asset_only_event ''Complete'') ''AssetId'' \<and>
   (\<exists>out oo. lambda_handler plain_render ''op'' (script []) (script []) fresh_helper
       (asset_only_event ''Complete'') = Some (Inr out, oo, []) \<and>
       map_of out ''Status'' = Some (PStr ''Complete''))"
proof -
  have a: "map_of (asset_only_event ''Complete'') ''Status'' = Some (PStr ''Complete'')"
    by (simp add: asset_only_event_def)
  have b: "metadata_has (asset_only_event ''Complete'') ''AssetId''"
    by (simp add: asset_only_event_def metadata_has_def)
  from complete_event_returns_at_once [OF a b] a b show ?thesis by blast
qed

text \<open>
  C2 as stated fails: an event whose \<open>Status\<close> is \<open>Complete\<close> but which has no
  \<open>MetaData\<close> is answered with the failure object for a missing key, not with
  \<open>Complete\<close>.
\<close>

theorem complete_event_without_metadata_fails:
  "map_of (status_only_event ''Complete'') ''Status'' = Some (PStr ''Complete'') \<and>
   lambda_handler plain_render ''op'' (script []) (script []) fresh_helper
     (status_only_event ''Complete'') =
   Some (Inl (MasExecutionError
           [(''Name'', PStr ''contentModeration''), (''Status'', PStr ''Error''),
            (''MetaData'', PDict [(''ContentModerationError'',
                                   PStr (''Missing key '' @ key_repr ''MetaData''))]),
            (''Media'', PDict [])]),
         \<lparr>obj_name = PStr ''contentModeration'', obj_status = PStr ''Error'',
          obj_metadata = [(''ContentModerationError'',
                           PStr (''Missing key '' @ key_repr ''MetaData''))],
          obj_media = []\<rparr>, [])"
  by (simp add: lambda_handler_def status_only_event_def read_status_and_asset_def
      dict_getitem_def fresh_helper_def update_workflow_status_def add_workflow_metadata_def
      dict_update_def return_output_object_def)

text \<open>
  C3 (as amended).  For every input event that lacks the top-level \<open>Status\<close> or
  \<open>MetaData\<close>, or whose \<open>MetaData\<close> dict lacks \<open>AssetId\<close>, and for every input event
  whose \<open>Status\<close> is not \<open>Complete\<close> and whose \<open>MetaData\<close> dict lacks
  \<open>ContentModerationJobId\<close> or \<open>WorkflowExecutionId\<close>, the poll adapter raises the
  structured failure object with \<open>Status\<close> \<open>Error\<close> and makes no call at all: it
  contacts neither the remote service nor the metadata store.
\<close>

theorem missing_key_is_error:
  assumes "map_of event ''Status'' = None \<or> map_of event ''MetaData'' = None \<or>
           metadata_lacks event ''AssetId'' \<or>
           (map_of event ''Status'' \<noteq> Some (PStr ''Complete'') \<and>
            (metadata_lacks event ''ContentModerationJobId'' \<or>
             metadata_lacks event ''WorkflowExecutionId''))"
  shows "\<exists>out oo. lambda_handler render operator_name rek dataplane output_object event =
           Some (Inl (MasExecutionError out), oo, []) \<and>
           map_of out ''Status'' = Some (PStr ''Error'')"
  using assms
  by (auto simp: lambda_handler_def read_status_and_asset_def read_job_and_workflow_def
      dict_getitem_def metadata_lacks_def Let_def
      split: option.splits pyval.splits)

theorem missing_key_is_error_witness:
  "map_of (asset_only_event ''Executing'') ''Status'' \<noteq> Some (PStr ''Complete'') \<and>
   metadata_lacks (asset_only_event ''Executing'') ''ContentModerationJobId'' \<and>
   (\<exists>out oo. lambda_handler plain_render ''op'' (script []) (script []) fresh_helper
       (asset_only_event ''Executing'') = Some (Inl (MasExecutionError out), oo, []) \<and>
       map_of out ''Status'' = Some (PStr ''Error''))"
proof -
  have a: "map_of (asset_only_event ''Executing'') ''Status'' \<noteq> Some (PStr ''Complete'')"
    by (simp add: asset_only_event_def)
  have b: "metadata_lacks (asset_only_event ''Executing'') ''ContentModerationJobId''"
    by (simp add: asset_only_event_def metadata_lacks_def)
  from a b missing_key_is_error [of "asset_only_event ''Executing''" plain_render "''op''"
      "script []" "script []" fresh_helper]
  show ?thesis by blast
qed

text \<open>
  C3 as stated fails: an event without \<open>ContentModerationJobId\<close> and
  \<open>WorkflowExecutionId\<close> whose \<open>Status\<close> is \<open>Complete\<close> is answered with
  \<open>Complete\<close>, not with a failure.
\<close>

theorem complete_event_without_job_id_returns:
  "metadata_lacks (asset_only_event ''Complete'') ''ContentModerationJobId'' \<and>
   lambda_handler plain_render ''op'' (script []) (script []) fresh_helper
     (asset_only_event ''Complete'') =
   Some (Inr [(''Name'', PStr ''contentModeration''), (''Status'', PStr ''Complete''),
              (''MetaData'', PDict []), (''Media'', PDict [])],
         \<lparr>obj_name = PStr ''contentModeration'', obj_status = PStr ''Complete'',
          obj_metadata = [], obj_media = []\<rparr>, [])"
  by (simp add: lambda_handler_def asset_only_event_def read_status_and_asset_def
      dict_getitem_def fresh_helper_def update_workflow_status_def metadata_lacks_def
      return_output_object_def)

text \<open>
  C10 (as amended).  The early return applies only to a \<open>Status\<close> of exactly
  \<open>Complete\<close>: for every input event that carries \<open>AssetId\<close>,
  \<open>ContentModerationJobId\<close> and \<open>WorkflowExecutionId\<close> in its \<open>MetaData\<close> and whose
  \<open>Status\<close> is \<open>Error\<close> or any other value than \<open>Complete\<close>, the adapter
  does not return at once but queries the remote service for the job's status: the
  invocation ends with that query (with the empty pagination token) as its first call,
  unless every page goes on, in which case it queries page after page without end.
\<close>

theorem other_status_queries:
  assumes "event_keys event status asset_id job_id workflow_id"
    and "status \<noteq> PStr ''Complete''"
  shows "(\<forall>n. page_goes_on (rek n) (dataplane n)) \<or>
         (\<exists>r oo rest.
            lambda_handler render operator_name rek dataplane output_object event =
              Some (r, oo, GetContentModeration job_id 1000 (PStr []) # rest))"
proof (cases "\<forall>n. page_goes_on (rek n) (dataplane n)")
  case True
  then show ?thesis by simp
next
  case False
  then obtain n where "\<not> page_goes_on (rek n) (dataplane n)" by blast
  with while_terminates [of rek n dataplane 0 render operator_name asset_id job_id
      workflow_id "PStr []" False output_object "[]"]
  obtain r oo trace where
    run: "while_not_finished render operator_name rek dataplane asset_id job_id workflow_id
            0 (PStr []) False output_object [] = Some (r, oo, trace)"
    by auto
  from while_returns_trace [OF run] obtain rest where
    "trace = GetContentModeration job_id 1000 (PStr []) # rest"
    by auto
  with run handler_polls [OF assms] show ?thesis by simp
qed

theorem other_status_queries_witness:
  "event_keys (full_event ''Error'') (PStr ''Error'') (PStr ''a1'') (PStr ''j1'') (PStr ''w1'') \<and>
   PStr ''Error'' \<noteq> PStr ''Complete'' \<and>
   \<not> page_goes_on (script [Returns (job_state ''IN_PROGRESS'')] 0) (script [] 0) \<and>
   (\<exists>r oo rest.
      lambda_handler plain_render ''op'' (script [Returns (job_state ''IN_PROGRESS'')])
        (script []) fresh_helper (full_event ''Error'') =
      Some (r, oo, GetContentModeration (PStr ''j1'') 1000 (PStr []) # rest))"
proof -
  have a: "event_keys (full_event ''Error'') (PStr ''Error'') (PStr ''a1'') (PStr ''j1'')
             (PStr ''w1'')"
    by (simp add: event_keys_def full_event_def)
  have b: "PStr ''Error'' \<noteq> PStr ''Complete''" by simp
  have c: "\<not> page_goes_on (script [Returns (job_state ''IN_PROGRESS'')] 0) (script [] 0)"
    by (simp add: page_goes_on_def script_def job_state_def)
  from other_status_queries
    [where rek = "script [Returns (job_state ''IN_PROGRESS'')]" and dataplane = "script []"
       and render = plain_render and operator_name = "''op''" and output_object = fresh_helper,
      OF a b] a b c
  show ?thesis by blast
qed

text \<open>
  C10 as stated fails: an event whose \<open>Status\<close> is \<open>Error\<close> but which has no
  \<open>ContentModerationJobId\<close> is answered with the failure object for a missing key, and
  the remote service is not queried.
\<close>

theorem error_event_without_job_id_not_polled:
  "map_of (asset_only_event ''Error'') ''Status'' = Some (PStr ''Error'') \<and>
   lambda_handler plain_render ''op'' (script [Returns (job_state ''IN_PROGRESS'')]) (script [])
     fresh_helper (asset_only_event ''Error'') =
   Some (Inl (MasExecutionError
           [(''Name'', PStr ''contentModeration''), (''Status'', PStr ''Error''),
            (''MetaData'', PDict [(''ContentModerationError'',
               PStr (''Missing a required metadata key '' @ key_repr ''ContentModerationJobId''))]),
            (''Media'', PDict [])]),
         \<lparr>obj_name = PStr ''contentModeration'', obj_status = PStr ''Error'',
          obj_metadata = [(''ContentModerationError'',
               PStr (''Missing a required metadata key '' @ key_repr ''ContentModerationJobId''))],
          obj_media = []\<rparr>, [])"
  by (simp add: lambda_handler_def asset_only_event_def read_status_and_asset_def
      read_job_and_workflow_def dict_getitem_def fresh_helper_def update_workflow_status_def
      add_workflow_metadata_def dict_update_def return_output_object_def)

section \<open>The claims about what the remote service reports\<close>

text \<open>
  C4 (as amended).  Whenever the remote service reports the job status \<open>IN_PROGRESS\<close>, as
  the answer to the first query or after \<open>k\<close> pages that went on, the poll adapter
  returns an output object with \<open>Status\<close> \<open>Executing\<close> and performs no
  metadata-store write for that response: the writes of the invocation are exactly those
  of the \<open>k\<close> pages before it, so there is none at all when \<open>IN_PROGRESS\<close> is the
  first response.
\<close>

theorem in_progress_adds_no_write:
  assumes "event_keys event status asset_id job_id workflow_id"
    and "status \<noteq> PStr ''Complete''"
    and "\<forall>j<k. page_goes_on (rek j) (dataplane j)"
    and "job_status_is ''IN_PROGRESS'' (rek k)"
  shows "\<exists>out oo trace.
           lambda_handler render operator_name rek dataplane output_object event =
             Some (Inr out, oo, trace) \<and>
           map_of out ''Status'' = Some (PStr ''Executing'') \<and>
           store_calls trace =
             map (store_call operator_name rek asset_id workflow_id (Some True) (Some False))
               [0..<k] \<and>
           remote_queries trace = map (query_call rek job_id) [0..<Suc k]"
proof -
  let ?before = "pages_trace operator_name rek asset_id job_id workflow_id k"
  from loop_body_in_progress [of rek k, OF assms(4)]
  obtain oo where
    "loop_body render operator_name rek dataplane asset_id job_id workflow_id
       k (token_at rek k) (0 < k) output_object ?before =
     Leave (Inr (return_output_object oo)) oo
       (?before @ [GetContentModeration job_id 1000 (token_at rek k)])"
    and "obj_status oo = PStr ''Executing''"
    by blast
  then show ?thesis
    using handler_after_pages [OF assms(1,2,3)] store_calls_pages
      remote_queries_pages [of operator_name rek asset_id job_id workflow_id k]
    by (simp add: while_leaves store_calls_def remote_queries_def query_call_def)
qed

theorem in_progress_adds_no_write_witness:
  "event_keys (full_event ''Executing'') (PStr ''Executing'') (PStr ''a1'') (PStr ''j1'')
     (PStr ''w1'') \<and>
   PStr ''Executing'' \<noteq> PStr ''Complete'' \<and>
   page_goes_on (script [Returns (page ''t1''), Returns (job_state ''IN_PROGRESS'')] 0)
     (script [Returns (upload ''Success'')] 0) \<and>
   job_status_is ''IN_PROGRESS''
     (script [Returns (page ''t1''), Returns (job_state ''IN_PROGRESS'')] 1) \<and>
   (\<exists>out oo trace.
      lambda_handler plain_render ''op''
        (script [Returns (page ''t1''), Returns (job_state ''IN_PROGRESS'')])
        (script [Returns (upload ''Success'')]) fresh_helper (full_event ''Executing'') =
        Some (Inr out, oo, trace) \<and>
      map_of out ''Status'' = Some (PStr ''Executing'') \<and>
      store_calls trace =
        [StoreAssetMetadata (PStr ''a1'') (PStr ''op'') (PStr ''w1'') (PDict (page ''t1''))
           (Some True) (Some False)] \<and>
      remote_queries trace =
        [GetContentModeration (PStr ''j1'') 1000 (PStr []),
         GetContentModeration (PStr ''j1'') 1000 (PStr ''t1'')])"
proof -
  let ?rek = "script [Returns (page ''t1''), Returns (job_state ''IN_PROGRESS'')]"
  let ?dataplane = "script [Returns (upload ''Success'')]"
  have a: "event_keys (full_event ''Executing'') (PStr ''Executing'') (PStr ''a1'')
             (PStr ''j1'') (PStr ''w1'')"
    by (simp add: event_keys_def full_event_def)
  have b: "PStr ''Executing'' \<noteq> PStr ''Complete''" by simp
  have c0: "page_goes_on (?rek 0) (?dataplane 0)"
    by (simp add: script_def page_goes_on_def page_def upload_def dict_contains_def)
  then have c: "\<forall>j<Suc 0. page_goes_on (?rek j) (?dataplane j)" by simp
  have d: "job_status_is ''IN_PROGRESS'' (?rek (Suc 0))"
    by (simp add: script_def job_state_def)
  from in_progress_adds_no_write
    [where rek = ?rek and dataplane = ?dataplane and k = "Suc 0" and render = plain_render
       and operator_name = "''op''" and output_object = fresh_helper, OF a b c d] a b c0 d
  show ?thesis
    by (simp add: query_call_def store_call_def script_def next_token_def page_def)
qed

text \<open>
  C4 as stated fails: when \<open>IN_PROGRESS\<close> is reported after a page that carried a
  \<open>NextToken\<close>, the adapter returns \<open>Executing\<close>, but that page has been written in
  the same invocation.
\<close>

theorem in_progress_after_page_has_written:
  "job_status_is ''IN_PROGRESS''
     (script [Returns (page ''t1''), Returns (job_state ''IN_PROGRESS'')] 1) \<and>
   lambda_handler plain_render ''op''
     (script [Returns (page ''t1''), Returns (job_state ''IN_PROGRESS'')])
     (script [Returns (upload ''Success'')]) fresh_helper (full_event ''Executing'') =
   Some (Inr [(''Name'', PStr ''contentModeration''), (''Status'', PStr ''Executing''),
              (''MetaData'', PDict [(''ContentModerationJobId'', PStr ''j1''),
                                    (''AssetId'', PStr ''a1''),
                                    (''WorkflowExecutionId'', PStr ''w1'')]),
              (''Media'', PDict [])],
         \<lparr>obj_name = PStr ''contentModeration'', obj_status = PStr ''Executing'',
          obj_metadata = [(''ContentModerationJobId'', PStr ''j1''), (''AssetId'', PStr ''a1''),
                          (''WorkflowExecutionId'', PStr ''w1'')],
          obj_media = []\<rparr>,
         [GetContentModeration (PStr ''j1'') 1000 (PStr []),
          StoreAssetMetadata (PStr ''a1'') (PStr ''op'') (PStr ''w1'') (PDict (page ''t1''))
            (Some True) (Some False),
          GetContentModeration (PStr ''j1'') 1000 (PStr ''t1'')])"
  by (simp add: lambda_handler_def full_event_def read_status_and_asset_def
      read_job_and_workflow_def dict_getitem_def dict_contains_def while_not_finished.simps
      loop_body_def script_def job_state_def page_def upload_def fresh_helper_def
      update_workflow_status_def add_workflow_metadata_def dict_update_def
      return_output_object_def)

text \<open>
  C5 (as amended).  Whenever the remote service reports the job status \<open>FAILED\<close> (with a
  \<open>StatusMessage\<close>), as the answer to the first query or after \<open>k\<close> pages that went
  on, the poll adapter raises the structured failure object with \<open>Status\<close> \<open>Error\<close>,
  whose metadata holds the text of the response's \<open>StatusMessage\<close> under
  \<open>ContentModerationError\<close>, and performs no metadata-store write for that response:
  the writes of the invocation are exactly those of the \<open>k\<close> pages before it, so there
  is none at all when \<open>FAILED\<close> is the first response.
\<close>

theorem failed_job_adds_no_write:
  assumes "event_keys event status asset_id job_id workflow_id"
    and "status \<noteq> PStr ''Complete''"
    and "\<forall>j<k. page_goes_on (rek j) (dataplane j)"
    and "rek k = Returns response"
    and "map_of response ''JobStatus'' = Some (PStr ''FAILED'')"
    and "map_of response ''StatusMessage'' = Some m"
  shows "\<exists>out oo trace.
           lambda_handler render operator_name rek dataplane output_object event =
             Some (Inl (MasExecutionError out), oo, trace) \<and>
           map_of out ''Status'' = Some (PStr ''Error'') \<and>
           output_metadata out ''ContentModerationError'' = Some (PStr (py_str render m)) \<and>
           store_calls trace =
             map (store_call operator_name rek asset_id workflow_id (Some True) (Some False))
               [0..<k] \<and>
           remote_queries trace = map (query_call rek job_id) [0..<Suc k]"
proof -
  let ?before = "pages_trace operator_name rek asset_id job_id workflow_id k"
  from loop_body_failed [of rek k, OF assms(4,5,6)]
  obtain oo where
    "loop_body render operator_name rek dataplane asset_id job_id workflow_id
       k (token_at rek k) (0 < k) output_object ?before =
     Leave (Inl (MasExecutionError (return_output_object oo))) oo
       (?before @ [GetContentModeration job_id 1000 (token_at rek k)])"
    and "obj_status oo = PStr ''Error''"
    and "map_of (obj_metadata oo) ''ContentModerationError'' = Some (PStr (py_str render m))"
    by blast
  then show ?thesis
    using handler_after_pages [OF assms(1,2,3)] store_calls_pages
      remote_queries_pages [of operator_name rek asset_id job_id workflow_id k]
    by (simp add: while_leaves store_calls_def remote_queries_def query_call_def)
qed

theorem failed_job_adds_no_write_witness:
  "event_keys (full_event ''Executing'') (PStr ''Executing'') (PStr ''a1'') (PStr ''j1'')
     (PStr ''w1'') \<and>
   PStr ''Executing'' \<noteq> PStr ''Complete'' \<and>
   page_goes_on (script [Returns (page ''t1''), Returns (job_state ''FAILED'')] 0)
     (script [Returns (upload ''Success'')] 0) \<and>
   script [Returns (page ''t1''), Returns (job_state ''FAILED'')] 1 =
     Returns (job_state ''FAILED'') \<and>
   map_of (job_state ''FAILED'') ''JobStatus'' = Some (PStr ''FAILED'') \<and>
   map_of (job_state ''FAILED'') ''StatusMessage'' = Some (PStr ''job failed'') \<and>
   (\<exists>out oo trace.
      lambda_handler plain_render ''op''
        (script [Returns (page ''t1''), Returns (job_state ''FAILED'')])
        (script [Returns (upload ''Success'')]) fresh_helper (full_event ''Executing'') =
        Some (Inl (MasExecutionError out), oo, trace) \<and>
      map_of out ''Status'' = Some (PStr ''Error'') \<and>
      output_metadata out ''ContentModerationError'' = Some (PStr ''job failed'') \<and>
      store_calls trace =
        [StoreAssetMetadata (PStr ''a1'') (PStr ''op'') (PStr ''w1'') (PDict (page ''t1''))
           (Some True) (Some False)] \<and>
      remote_queries trace =
        [GetContentModeration (PStr ''j1'') 1000 (PStr []),
         GetContentModeration (PStr ''j1'') 1000 (PStr ''t1'')])"
proof -
  let ?rek = "script [Returns (page ''t1''), Returns (job_state ''FAILED'')]"
  let ?dataplane = "script [Returns (upload ''Success'')]"
  have a: "event_keys (full_event ''Executing'') (PStr ''Executing'') (PStr ''a1'')
             (PStr ''j1'') (PStr ''w1'')"
    by (simp add: event_keys_def full_event_def)
  have b: "PStr ''Executing'' \<noteq> PStr ''Complete''" by simp
  have p0: "page_goes_on (?rek 0) (?dataplane 0)"
    by (simp add: script_def page_goes_on_def page_def upload_def dict_contains_def)
  then have p: "\<forall>j<Suc 0. page_goes_on (?rek j) (?dataplane j)" by simp
  have c: "?rek (Suc 0) = Returns (job_state ''FAILED'')"
    by (simp add: script_def)
  have d: "map_of (job_state ''FAILED'') ''JobStatus'' = Some (PStr ''FAILED'')"
    by (simp add: job_state_def)
  have e: "map_of (job_state ''FAILED'') ''StatusMessage'' = Some (PStr ''job failed'')"
    by (simp add: job_state_def)
  from failed_job_adds_no_write
    [where rek = ?rek and dataplane = ?dataplane and k = "Suc 0" and render = plain_render
       and operator_name = "''op''" and output_object = fresh_helper, OF a b p c d e]
    a b p0 c d e
  show ?thesis
    by (simp add: py_str_def query_call_def store_call_def script_def next_token_def page_def)
qed

text \<open>
  C5 as stated fails: when \<open>FAILED\<close> is reported after a page that carried a
  \<open>NextToken\<close>, the adapter raises the failure object, but that page has been written
  in the same invocation.
\<close>

theorem failed_after_page_has_written:
  "map_of (job_state ''FAILED'') ''JobStatus'' = Some (PStr ''FAILED'') \<and>
   lambda_handler plain_render ''op''
     (script [Returns (page ''t1''), Returns (job_state ''FAILED'')])
     (script [Returns (upload ''Success'')]) fresh_helper (full_event ''Executing'') =
   Some (Inl (MasExecutionError
           [(''Name'', PStr ''contentModeration''), (''Status'', PStr ''Error''),
            (''MetaData'', PDict [(''ContentModerationJobId'', PStr ''j1''),
                                  (''ContentModerationError'', PStr ''job failed'')]),
            (''Media'', PDict [])]),
         \<lparr>obj_name = PStr ''contentModeration'', obj_status = PStr ''Error'',
          obj_metadata = [(''ContentModerationJobId'', PStr ''j1''),
                          (''ContentModerationError'', PStr ''job failed'')],
          obj_media = []\<rparr>,
         [GetContentModeration (PStr ''j1'') 1000 (PStr []),
          StoreAssetMetadata (PStr ''a1'') (PStr ''op'') (PStr ''w1'') (PDict (page ''t1''))
            (Some True) (Some False),
          GetContentModeration (PStr ''j1'') 1000 (PStr ''t1'')])"
  by (simp add: lambda_handler_def full_event_def read_status_and_asset_def
      read_job_and_workflow_def dict_getitem_def dict_contains_def while_not_finished.simps
      loop_body_def script_def job_state_def page_def upload_def fresh_helper_def
      update_workflow_status_def add_workflow_metadata_def dict_update_def
      return_output_object_def py_str_def)

text \<open>
  C7.  Whenever the remote service reports a job status other than \<open>IN_PROGRESS\<close>,
  \<open>FAILED\<close> and \<open>SUCCEEDED\<close> (as the first response or after \<open>k\<close> pages that went
  on), the poll adapter raises the structured failure object with \<open>Status\<close> \<open>Error\<close>
  and the message \<open>Unable to determine status\<close>, and performs no metadata-store write
  for that response: the writes made are those of the \<open>k\<close> pages before it.
\<close>

theorem unrecognized_status_is_error:
  assumes "event_keys event status asset_id job_id workflow_id"
    and "status \<noteq> PStr ''Complete''"
    and "\<forall>j<k. page_goes_on (rek j) (dataplane j)"
    and "rek k = Returns response"
    and "map_of response ''JobStatus'' = Some s"
    and "s \<noteq> PStr ''IN_PROGRESS''" and "s \<noteq> PStr ''FAILED''" and "s \<noteq> PStr ''SUCCEEDED''"
  shows "\<exists>out oo trace.
           lambda_handler render operator_name rek dataplane output_object event =
             Some (Inl (MasExecutionError out), oo, trace) \<and>
           map_of out ''Status'' = Some (PStr ''Error'') \<and>
           output_metadata out ''ContentModerationError'' =
             Some (PStr ''Unable to determine status'') \<and>
           store_calls trace =
             map (store_call operator_name rek asset_id workflow_id (Some True) (Some False))
               [0..<k]"
proof -
  let ?before = "pages_trace operator_name rek asset_id job_id workflow_id k"
  from loop_body_unrecognized [of rek k, OF assms(4-8)]
  obtain oo where
    "loop_body render operator_name rek dataplane asset_id job_id workflow_id
       k (token_at rek k) (0 < k) output_object ?before =
     Leave (Inl (MasExecutionError (return_output_object oo))) oo
       (?before @ [GetContentModeration job_id 1000 (token_at rek k)])"
    and "obj_status oo = PStr ''Error''"
    and "map_of (obj_metadata oo) ''ContentModerationError'' =
           Some (PStr ''Unable to determine status'')"
    by blast
  then show ?thesis
    using handler_after_pages [OF assms(1,2,3)] store_calls_pages
    by (simp add: while_leaves store_calls_def)
qed

theorem unrecognized_status_is_error_witness:
  "event_keys (full_event ''Executing'') (PStr ''Executing'') (PStr ''a1'') (PStr ''j1'')
     (PStr ''w1'') \<and>
   PStr ''Executing'' \<noteq> PStr ''Complete'' \<and>
   page_goes_on (script [Returns (page ''t1''), Returns (job_state ''PAUSED'')] 0)
     (script [Returns (upload ''Success'')] 0) \<and>
   script [Returns (page ''t1''), Returns (job_state ''PAUSED'')] 1 =
     Returns (job_state ''PAUSED'') \<and>
   map_of (job_state ''PAUSED'') ''JobStatus'' = Some (PStr ''PAUSED'') \<and>
   PStr ''PAUSED'' \<noteq> PStr ''IN_PROGRESS'' \<and> PStr ''PAUSED'' \<noteq> PStr ''FAILED'' \<and>
   PStr ''PAUSED'' \<noteq> PStr ''SUCCEEDED'' \<and>
   (\<exists>out oo trace.
      lambda_handler plain_render ''op''
        (script [Returns (page ''t1''), Returns (job_state ''PAUSED'')])
        (script [Returns (upload ''Success'')]) fresh_helper (full_event ''Executing'') =
        Some (Inl (MasExecutionError out), oo, trace) \<and>
      map_of out ''Status'' = Some (PStr ''Error'') \<and>
      output_metadata out ''ContentModerationError'' =
        Some (PStr ''Unable to determine status'') \<and>
      store_calls trace =
        [StoreAssetMetadata (PStr ''a1'') (PStr ''op'') (PStr ''w1'') (PDict (page ''t1''))
           (Some True) (Some False)])"
proof -
  let ?rek = "script [Returns (page ''t1''), Returns (job_state ''PAUSED'')]"
  let ?dataplane = "script [Returns (upload ''Success'')]"
  have a: "event_keys (full_event ''Executing'') (PStr ''Executing'') (PStr ''a1'')
             (PStr ''j1'') (PStr ''w1'')"
    by (simp add: event_keys_def full_event_def)
  have b: "PStr ''Executing'' \<noteq> PStr ''Complete''" by simp
  have c0: "page_goes_on (?rek 0) (?dataplane 0)"
    by (simp add: script_def page_goes_on_def page_def upload_def dict_contains_def)
  then have c: "\<forall>j<Suc 0. page_goes_on (?rek j) (?dataplane j)" by simp
  have d: "?rek (Suc 0) = Returns (job_state ''PAUSED'')"
    by (simp add: script_def)
  have e: "map_of (job_state ''PAUSED'') ''JobStatus'' = Some (PStr ''PAUSED'')"
    by (simp add: job_state_def)
  have f: "PStr ''PAUSED'' \<noteq> PStr ''IN_PROGRESS''" "PStr ''PAUSED'' \<noteq> PStr ''FAILED''"
    "PStr ''PAUSED'' \<noteq> PStr ''SUCCEEDED''" by simp_all
  from unrecognized_status_is_error
    [where rek = ?rek and dataplane = ?dataplane and k = "Suc 0" and operator_name = "''op''",
      OF a b c d e f] a b c0 d e f
  show ?thesis by (simp add: store_call_def script_def)
qed

section \<open>The claims about pages and writes\<close>



text \<open>
  C1 (as amended).  For a SUCCEEDED job whose remote responses form a sequence of \<open>N\<close>
  pages (the first \<open>N - 1\<close> each carrying a \<open>NextToken\<close>, the last carrying none),
  when each of the first \<open>N - 1\<close> writes reports \<open>Success\<close>, the poll adapter makes
  exactly \<open>N\<close> queries and exactly \<open>N\<close> metadata-store writes, one per page and in
  order: the first \<open>N - 1\<close> marked non-final (\<open>paginate=True, end=False\<close>), and the
  \<open>N\<close>-th marked final (\<open>paginate=True, end=True\<close>) when \<open>N\<close> is at least 2,
  while for \<open>N = 1\<close> the single write carries no pagination flags; and when the last
  write reports \<open>Success\<close> as well, it returns an output object with \<open>Status\<close>
  \<open>Complete\<close>.
\<close>

theorem paginated_success_writes_every_page:
  assumes "event_keys event status asset_id job_id workflow_id"
    and "status \<noteq> PStr ''Complete''"
    and "0 < N"
    and "\<forall>i<N - 1. job_status_is ''SUCCEEDED'' (rek i) \<and> has_next_token (rek i)"
    and "job_status_is ''SUCCEEDED'' (rek (N - 1))" and "\<not> has_next_token (rek (N - 1))"
    and "\<forall>i<N - 1. upload_succeeded (dataplane i)"
  shows "\<exists>r oo trace.
           lambda_handler render operator_name rek dataplane output_object event =
             Some (r, oo, trace) \<and>
           remote_queries trace = map (query_call rek job_id) [0..<N] \<and>
           store_calls trace =
             map (store_call operator_name rek asset_id workflow_id (Some True) (Some False))
               [0..<N - 1] @
             [store_call operator_name rek asset_id workflow_id
                (if N = 1 then None else Some True) (if N = 1 then None else Some True)
                (N - 1)] \<and>
           (upload_succeeded (dataplane (N - 1)) \<longrightarrow> returned_status ''Complete'' r)"
proof -
  let ?k = "N - 1"
  let ?before = "pages_trace operator_name rek asset_id job_id workflow_id ?k"
  from assms(4,7) have pages: "\<forall>j<?k. page_goes_on (rek j) (dataplane j)"
    by (simp add: page_goes_on_def)
  from loop_body_last_page [of rek ?k, OF assms(5,6)]
  obtain r oo where body:
    "loop_body render operator_name rek dataplane asset_id job_id workflow_id
       ?k (token_at rek ?k) (0 < ?k) output_object ?before =
     Leave r oo
       (?before @ [GetContentModeration job_id 1000 (token_at rek ?k),
                   store_call operator_name rek asset_id workflow_id
                     (if 0 < ?k then Some True else None)
                     (if 0 < ?k then Some True else None) ?k])"
    and ok: "upload_succeeded (dataplane ?k) \<longrightarrow> returned_status ''Complete'' r"
    by blast
  from assms(3) have upt: "[0..<N] = [0..<?k] @ [?k]"
    by (cases N) simp_all
  have flags: "(0 < ?k) = (N \<noteq> 1)"
    using assms(3) by auto
  have "lambda_handler render operator_name rek dataplane output_object event =
        Some (r, oo, ?before @ [GetContentModeration job_id 1000 (token_at rek ?k),
                   store_call operator_name rek asset_id workflow_id
                     (if 0 < ?k then Some True else None)
                     (if 0 < ?k then Some True else None) ?k])"
    using handler_after_pages [OF assms(1,2) pages] body by (simp add: while_leaves)
  moreover have "remote_queries (?before @ [GetContentModeration job_id 1000 (token_at rek ?k),
                   store_call operator_name rek asset_id workflow_id
                     (if 0 < ?k then Some True else None)
                     (if 0 < ?k then Some True else None) ?k]) =
                 map (query_call rek job_id) [0..<N]"
    unfolding upt using remote_queries_pages [of operator_name rek asset_id job_id workflow_id ?k]
    by (simp add: remote_queries_def query_call_def store_call_def)
  moreover have "store_calls (?before @ [GetContentModeration job_id 1000 (token_at rek ?k),
                   store_call operator_name rek asset_id workflow_id
                     (if 0 < ?k then Some True else None)
                     (if 0 < ?k then Some True else None) ?k]) =
             map (store_call operator_name rek asset_id workflow_id (Some True) (Some False))
               [0..<?k] @
             [store_call operator_name rek asset_id workflow_id
                (if N = 1 then None else Some True) (if N = 1 then None else Some True) ?k]"
    using store_calls_pages [of operator_name rek asset_id job_id workflow_id ?k] flags
    by (simp add: store_calls_def store_call_def)
  ultimately show ?thesis using ok by blast
qed

theorem paginated_success_writes_every_page_witness:
  "event_keys (full_event ''Executing'') (PStr ''Executing'') (PStr ''a1'') (PStr ''j1'')
     (PStr ''w1'') \<and>
   PStr ''Executing'' \<noteq> PStr ''Complete'' \<and> (0::nat) < 2 \<and>
   job_status_is ''SUCCEEDED'' (script [Returns (page ''t1''), Returns last_page] 0) \<and>
   has_next_token (script [Returns (page ''t1''), Returns last_page] 0) \<and>
   job_status_is ''SUCCEEDED'' (script [Returns (page ''t1''), Returns last_page] 1) \<and>
   \<not> has_next_token (script [Returns (page ''t1''), Returns last_page] 1) \<and>
   upload_succeeded (script [Returns (upload ''Success''), Returns (upload ''Success'')] 0) \<and>
   upload_succeeded (script [Returns (upload ''Success''), Returns (upload ''Success'')] 1) \<and>
   (\<exists>r oo trace.
      lambda_handler plain_render ''op'' (script [Returns (page ''t1''), Returns last_page])
        (script [Returns (upload ''Success''), Returns (upload ''Success'')]) fresh_helper
        (full_event ''Executing'') = Some (r, oo, trace) \<and>
      remote_queries trace =
        [GetContentModeration (PStr ''j1'') 1000 (PStr []),
         GetContentModeration (PStr ''j1'') 1000 (PStr ''t1'')] \<and>
      store_calls trace =
        [StoreAssetMetadata (PStr ''a1'') (PStr ''op'') (PStr ''w1'') (PDict (page ''t1''))
           (Some True) (Some False),
         StoreAssetMetadata (PStr ''a1'') (PStr ''op'') (PStr ''w1'') (PDict last_page)
           (Some True) (Some True)] \<and>
      returned_status ''Complete'' r)"
proof -
  let ?rek = "script [Returns (page ''t1''), Returns last_page]"
  let ?dataplane = "script [Returns (upload ''Success''), Returns (upload ''Success'')]"
  have a: "event_keys (full_event ''Executing'') (PStr ''Executing'') (PStr ''a1'')
             (PStr ''j1'') (PStr ''w1'')"
    by (simp add: event_keys_def full_event_def)
  have b: "PStr ''Executing'' \<noteq> PStr ''Complete''" by simp
  have n: "(0::nat) < 2" by simp
  have c0: "job_status_is ''SUCCEEDED'' (?rek 0)" "has_next_token (?rek 0)"
    by (simp_all add: script_def page_def dict_contains_def)
  then have c: "\<forall>i<2 - 1. job_status_is ''SUCCEEDED'' (?rek i) \<and> has_next_token (?rek i)"
    by simp
  have d: "job_status_is ''SUCCEEDED'' (?rek (2 - 1))" "\<not> has_next_token (?rek (2 - 1))"
    by (simp_all add: script_def last_page_def dict_contains_def)
  have e0: "upload_succeeded (?dataplane 0)" "upload_succeeded (?dataplane 1)"
    by (simp_all add: script_def upload_def)
  then have e: "\<forall>i<2 - 1. upload_succeeded (?dataplane i)" by simp
  have q: "[0..<2] = [0, Suc 0]" "[0..<2 - 1] = [0]"
    by (simp_all add: upt_rec)
  from paginated_success_writes_every_page
    [where rek = ?rek and dataplane = ?dataplane and N = 2 and operator_name = "''op''"
       and render = plain_render and output_object = fresh_helper,
      OF a b n c d e]
  obtain r oo trace where
    "lambda_handler plain_render ''op'' ?rek ?dataplane fresh_helper (full_event ''Executing'') =
       Some (r, oo, trace)"
    and "remote_queries trace = map (query_call ?rek (PStr ''j1'')) [0..<2]"
    and "store_calls trace =
           map (store_call ''op'' ?rek (PStr ''a1'') (PStr ''w1'') (Some True) (Some False))
             [0..<2 - 1] @
           [store_call ''op'' ?rek (PStr ''a1'') (PStr ''w1'')
              (if (2::nat) = 1 then None else Some True)
              (if (2::nat) = 1 then None else Some True) (2 - 1)]"
    and "upload_succeeded (?dataplane (2 - 1)) \<longrightarrow> returned_status ''Complete'' r"
    by blast
  with e0 have
    "lambda_handler plain_render ''op'' ?rek ?dataplane fresh_helper (full_event ''Executing'') =
       Some (r, oo, trace) \<and>
     remote_queries trace =
        [GetContentModeration (PStr ''j1'') 1000 (PStr []),
         GetContentModeration (PStr ''j1'') 1000 (PStr ''t1'')] \<and>
     store_calls trace =
        [StoreAssetMetadata (PStr ''a1'') (PStr ''op'') (PStr ''w1'') (PDict (page ''t1''))
           (Some True) (Some False),
         StoreAssetMetadata (PStr ''a1'') (PStr ''op'') (PStr ''w1'') (PDict last_page)
           (Some True) (Some True)] \<and>
     returned_status ''Complete'' r"
    by (simp add: q query_call_def store_call_def script_def next_token_def page_def)
  with a b c0 d e0 show ?thesis by simp
qed

text \<open>
  C1 as stated fails twice.  For \<open>N = 1\<close> the single write carries no pagination flags
  (the source passes neither \<open>paginate\<close> nor \<open>end\<close>), so it is not marked final; and
  for two pages whose first write reports \<open>Failed\<close> the adapter stops after that one
  write, so the writes are not \<open>N\<close>.
\<close>

theorem single_page_unflagged_and_failed_write_stops:
  "lambda_handler plain_render ''op'' (script [Returns last_page])
     (script [Returns (upload ''Success'')]) fresh_helper (full_event ''Executing'') =
   Some (Inr [(''Name'', PStr ''contentModeration''), (''Status'', PStr ''Complete''),
              (''MetaData'', PDict [(''LabelDetectionJobId'', PStr ''j1'')]),
              (''Media'', PDict [])],
         \<lparr>obj_name = PStr ''contentModeration'', obj_status = PStr ''Complete'',
          obj_metadata = [(''LabelDetectionJobId'', PStr ''j1'')], obj_media = []\<rparr>,
         [GetContentModeration (PStr ''j1'') 1000 (PStr []),
          StoreAssetMetadata (PStr ''a1'') (PStr ''op'') (PStr ''w1'') (PDict last_page)
            None None]) \<and>
   lambda_handler plain_render ''op'' (script [Returns (page ''t1''), Returns last_page])
     (script [Returns (upload ''Failed'')]) fresh_helper (full_event ''Executing'') =
   Some (Inl (MasExecutionError
           [(''Name'', PStr ''contentModeration''), (''Status'', PStr ''Error''),
            (''MetaData'', PDict [(''ContentModerationError'',
                                   PStr ''Unable to upload metadata for asset: a1''),
                                  (''ContentModerationJobId'', PStr ''j1'')]),
            (''Media'', PDict [])]),
         \<lparr>obj_name = PStr ''contentModeration'', obj_status = PStr ''Error'',
          obj_metadata = [(''ContentModerationError'',
                           PStr ''Unable to upload metadata for asset: a1''),
                          (''ContentModerationJobId'', PStr ''j1'')],
          obj_media = []\<rparr>,
         [GetContentModeration (PStr ''j1'') 1000 (PStr []),
          StoreAssetMetadata (PStr ''a1'') (PStr ''op'') (PStr ''w1'') (PDict (page ''t1''))
            (Some True) (Some False)])"
  by (simp add: lambda_handler_def full_event_def read_status_and_asset_def
      read_job_and_workflow_def dict_getitem_def dict_contains_def while_not_finished.simps
      loop_body_def script_def last_page_def page_def upload_def fresh_helper_def
      update_workflow_status_def add_workflow_metadata_def dict_update_def upload_error_def
      return_output_object_def py_str_def)

text \<open>
  C9.  The pagination loop is bounded by the remote service's page count: for every
  sequence of remote responses in which some response \<open>n\<close> is not a SUCCEEDED page with a
  \<open>NextToken\<close> (it is IN_PROGRESS, FAILED, unrecognized, SUCCEEDED without
  \<open>NextToken\<close>, or the call raises), the invocation ends, by return or by raise, after at
  most \<open>n + 1\<close> queries, one per page.  This holds for every event and whatever the
  metadata store answers.
\<close>

theorem pagination_loop_terminates:
  assumes "\<not> (job_status_is ''SUCCEEDED'' (rek n) \<and> has_next_token (rek n))"
  shows "\<exists>r oo trace.
           lambda_handler render operator_name rek dataplane output_object event =
             Some (r, oo, trace) \<and>
           length (remote_queries trace) \<le> Suc n"
proof -
  from assms have stop: "\<not> page_goes_on (rek n) (dataplane n)"
    by (auto simp: page_goes_on_def)
  from handler_without_loop [of render operator_name rek dataplane output_object event]
  show ?thesis
  proof
    assume "\<exists>r oo. lambda_handler render operator_name rek dataplane output_object event =
      Some (r, oo, [])"
    then show ?thesis by (auto simp: remote_queries_def)
  next
    assume "\<exists>status asset_id job_id workflow_id.
      status \<noteq> PStr ''Complete'' \<and>
      read_status_and_asset event = Inr (status, asset_id) \<and>
      read_job_and_workflow event = Inr (job_id, workflow_id)"
    then obtain status asset_id job_id workflow_id where
      "status \<noteq> PStr ''Complete''"
      "read_status_and_asset event = Inr (status, asset_id)"
      "read_job_and_workflow event = Inr (job_id, workflow_id)"
      by blast
    then have "lambda_handler render operator_name rek dataplane output_object event =
         while_not_finished render operator_name rek dataplane asset_id job_id workflow_id
           0 (PStr []) False output_object []"
      by (simp add: lambda_handler_def)
    with stop while_terminates [of rek n dataplane 0 render operator_name asset_id job_id
        workflow_id "PStr []" False output_object "[]"]
    show ?thesis by auto
  qed
qed

theorem pagination_loop_terminates_witness:
  "\<not> (job_status_is ''SUCCEEDED''
        (script [Returns (page ''t1''), Returns (job_state ''IN_PROGRESS'')] 1) \<and>
      has_next_token (script [Returns (page ''t1''), Returns (job_state ''IN_PROGRESS'')] 1)) \<and>
   (\<exists>r oo trace.
      lambda_handler plain_render ''op''
        (script [Returns (page ''t1''), Returns (job_state ''IN_PROGRESS'')])
        (script [Returns (upload ''Success'')]) fresh_helper (full_event ''Executing'') =
        Some (r, oo, trace) \<and>
      length (remote_queries trace) \<le> 2)"
proof -
  let ?rek = "script [Returns (page ''t1''), Returns (job_state ''IN_PROGRESS'')]"
  have a: "\<not> (job_status_is ''SUCCEEDED'' (?rek 1) \<and> has_next_token (?rek 1))"
    by (simp add: script_def job_state_def)
  from pagination_loop_terminates
    [where rek = ?rek and n = 1 and render = plain_render and operator_name = "''op''"
       and dataplane = "script [Returns (upload ''Success'')]" and output_object = fresh_helper
       and event = "full_event ''Executing''", OF a] a
  show ?thesis by (simp add: numeral_2_eq_2)
qed

section \<open>The claim about the lookup operator\<close>

text \<open>
  C8.  In the precomputed-metadata lookup operator, if the JSON document fetched from the
  object store cannot be read or does not decode to a dict (the fetch raises, the decoding
  raises, or the decoded value is of another type), the operator raises the structured
  failure object with \<open>Status\<close> \<open>Error\<close> and performs no metadata-store write.
\<close>

theorem unreadable_document_is_error:
  assumes "lambda_handler_generic_data_lookup render exception_text json_loads new_helper
             s3_get_object dataplane event = (r, trace)"
    and "S3GetObject bucket f \<in> set trace"
    and "\<not> decodes_to_dict json_loads (s3_get_object bucket f)"
  shows "\<exists>out. r = Inl (MasExecutionError out) \<and>
           map_of out ''Status'' = Some (PStr ''Error'') \<and>
           store_calls trace = []"
proof -
  from assms(1,2) obtain operator_object workflow_id asset_id b key metadata_filename where
    h: "new_helper event = Inr operator_object"
    and p: "get_parameters render event operator_object = Inr (workflow_id, asset_id, Some (PStr b, key))"
    and n: "get_metadata_filename operator_object key = Inr metadata_filename"
    by (auto simp: lambda_handler_generic_data_lookup_def split: sum.splits option.splits pyval.splits prod.splits)
  obtain x t where g: "get_metadata json_loads s3_get_object b metadata_filename = (x, t)"
    by (cases "get_metadata json_loads s3_get_object b metadata_filename")
  show ?thesis
  proof (cases x)
    case (Inl e)
    with assms(1) h p n g have r: "r = lookup_error (''Unable read datafile. '' @ exception_text e)
        operator_object" and t: "trace = t"
      by (simp_all add: lambda_handler_generic_data_lookup_def)
    from assms(2) t get_metadata_trace [OF g] have "trace = [S3GetObject bucket f]"
      by blast
    with r lookup_error_failure [of "''Unable read datafile. '' @ exception_text e" operator_object]
    show ?thesis by (auto simp: store_calls_def)
  next
    case (Inr v)
    show ?thesis
    proof (cases "\<exists>d. v = PDict d")
      case True
      then obtain d where v: "v = PDict d" by blast
      with assms(1) h p n g Inr have
        t: "trace = t @ snd (store_metadata render dataplane operator_object asset_id workflow_id d)"
        by (auto simp: lambda_handler_generic_data_lookup_def split: prod.splits)
      with assms(2) store_metadata_trace [of bucket f render dataplane operator_object asset_id
          workflow_id d]
      have "S3GetObject bucket f \<in> set t" by simp
      from get_metadata_trace [OF g this] Inr v have "decodes_to_dict json_loads (s3_get_object bucket f)"
        by (cases "s3_get_object bucket f") (auto split: sum.splits pyval.splits)
      with assms(3) show ?thesis by simp
    next
      case False
      with assms(1) h p n g Inr have
        r: "r = lookup_error (''Metadata must be of type dict. Found '' @ py_type_str v
              @ '' instead.'') operator_object" and t: "trace = t"
        by (cases v; simp add: lambda_handler_generic_data_lookup_def)+
      from assms(2) t get_metadata_trace [OF g] have "trace = [S3GetObject bucket f]"
        by blast
      with r lookup_error_failure [of "''Metadata must be of type dict. Found '' @ py_type_str v
              @ '' instead.''" operator_object]
      show ?thesis by (auto simp: store_calls_def)
    qed
  qed
qed

theorem unreadable_document_is_error_witness:
  "lambda_handler_generic_data_lookup plain_render plain_exception_text small_decoder
     helper_of_event (one_document ''[]'') (Returns (upload ''Success'')) lookup_event =
   (lookup_error (''Metadata must be of type dict. Found '' @ py_type_str (PList [])
        @ '' instead.'')
      \<lparr>obj_name = PStr ''GenericDataLookup'', obj_status = PStr [], obj_metadata = [],
       obj_media = [], obj_asset_id = PNone, obj_workflow_execution_id = PNone,
       obj_input = PDict [(''Media'', PDict [(''Video'',
          PDict [(''S3Bucket'', PStr ''bucket''), (''S3Key'', PStr ''clips/demo.mp4'')])])],
       obj_configuration = PDict []\<rparr>,
    [S3GetObject ''bucket'' ''demo.json'']) \<and>
   S3GetObject ''bucket'' ''demo.json'' \<in> set [S3GetObject ''bucket'' ''demo.json''] \<and>
   \<not> decodes_to_dict small_decoder (one_document ''[]'' ''bucket'' ''demo.json'') \<and>
   (\<exists>out. lookup_error (''Metadata must be of type dict. Found '' @ py_type_str (PList [])
              @ '' instead.'')
            \<lparr>obj_name = PStr ''GenericDataLookup'', obj_status = PStr [], obj_metadata = [],
             obj_media = [], obj_asset_id = PNone, obj_workflow_execution_id = PNone,
             obj_input = PDict [(''Media'', PDict [(''Video'',
                PDict [(''S3Bucket'', PStr ''bucket''), (''S3Key'', PStr ''clips/demo.mp4'')])])],
             obj_configuration = PDict []\<rparr> = Inl (MasExecutionError out) \<and>
          map_of out ''Status'' = Some (PStr ''Error'') \<and>
          store_calls [S3GetObject ''bucket'' ''demo.json''] = [])"
proof -
  have a: "lambda_handler_generic_data_lookup plain_render plain_exception_text small_decoder
     helper_of_event (one_document ''[]'') (Returns (upload ''Success'')) lookup_event =
   (lookup_error (''Metadata must be of type dict. Found '' @ py_type_str (PList [])
        @ '' instead.'')
      \<lparr>obj_name = PStr ''GenericDataLookup'', obj_status = PStr [], obj_metadata = [],
       obj_media = [], obj_asset_id = PNone, obj_workflow_execution_id = PNone,
       obj_input = PDict [(''Media'', PDict [(''Video'',
          PDict [(''S3Bucket'', PStr ''bucket''), (''S3Key'', PStr ''clips/demo.mp4'')])])],
       obj_configuration = PDict []\<rparr>,
    [S3GetObject ''bucket'' ''demo.json''])"
    by (simp add: lambda_handler_generic_data_lookup_def helper_of_event_def lookup_event_def
        get_parameters_def dict_getitem_def dict_contains_def media_location_def py_str_def
        get_metadata_filename_def get_metadata_def one_document_def small_decoder_def)
  have b: "S3GetObject ''bucket'' ''demo.json'' \<in> set [S3GetObject ''bucket'' ''demo.json'']"
    by simp
  have c: "\<not> decodes_to_dict small_decoder (one_document ''[]'' ''bucket'' ''demo.json'')"
    by (simp add: one_document_def small_decoder_def)
  from unreadable_document_is_error [OF a b c] a b c show ?thesis by blast
qed

end
